theory Spec2Isabelle
  imports Main
begin

section \<open>The file upload command of fabric-cli-ext\<close>

text \<open>
  The repository holds two copies of the \<open>uploadcmd\<close> package: the older one
  (\<open>cmd/file/uploadcmd/uploadcmd.go\<close>) authenticates the update of the file index
  document with one-time passwords, the newer one (the second document of
  \<open>scripts/integration.sh\<close>) signs it. Functions whose text is the same in both
  copies are modelled once; the functions that differ carry the suffix \<open>_sig\<close> for
  the newer copy.

  Go strings are byte sequences: \<open>string\<close> (a list of 8-bit \<open>char\<close>) models them,
  and \<open>length\<close> is Go's \<open>len\<close>.
\<close>

subsection \<open>The string functions of Go's standard library that the source calls\<close>

text \<open>
  \<open>strings.LastIndex(s, substr)\<close>: the index of the last occurrence of \<open>substr\<close>
  in \<open>s\<close>, or \<open>-1\<close>. An occurrence in the tail wins over one at the head.
\<close>

fun LastIndex :: "string \<Rightarrow> string \<Rightarrow> int" where
  "LastIndex [] substr = (if substr = [] then 0 else -1)"
| "LastIndex (x # xs) substr =
     (let r = LastIndex xs substr
      in if 0 \<le> r then r + 1
         else if take (length substr) (x # xs) = substr then 0
         else -1)"

text \<open>
  \<open>strings.Split(s, sep)\<close> for a separator of one byte (the source passes \<open>";"\<close>):
  the pieces between the separators, in order; at least one piece.
\<close>

fun Split :: "string \<Rightarrow> char \<Rightarrow> string list" where
  "Split [] sep = [[]]"
| "Split (x # xs) sep =
     (if x = sep then [] # Split xs sep
      else (case Split xs sep of
              [] \<Rightarrow> [[x]]
            | piece # pieces \<Rightarrow> (x # piece) # pieces))"

text \<open>
  \<open>strings.ToLower\<close>: a string of ASCII bytes only is lowered byte by byte
  (\<open>'A'..'Z'\<close> plus 32); any other string goes through
  \<open>strings.Map(unicode.ToLower, s)\<close>, whose Unicode tables are not part of this
  repository and are taken as the parameter \<open>ul\<close>.
\<close>

definition isASCII :: "string \<Rightarrow> bool" where
  "isASCII s = (\<forall>c \<in> set s. (of_char c :: nat) < 128)"

definition lowerByte :: "char \<Rightarrow> char" where
  "lowerByte c =
     (if 65 \<le> (of_char c :: nat) \<and> (of_char c :: nat) \<le> 90
      then char_of ((of_char c :: nat) + 32) else c)"

definition ToLower :: "(string \<Rightarrow> string) \<Rightarrow> string \<Rightarrow> string" where
  "ToLower ul s = (if isASCII s then map lowerByte s else ul s)"

subsection \<open>Constants and errors\<close>

definition msgAborted :: string where
  "msgAborted = ''Operation aborted''"

definition msgContinueOrAbort :: string where
  "msgContinueOrAbort = ''Enter Y to continue or N to abort ''"

definition sha2_256 :: nat where
  "sha2_256 = 18"

definition signingAlgorithm :: string where
  "signingAlgorithm = ''ES256''"

definition jsonPatchBasePath :: string where
  "jsonPatchBasePath = ''/fileIndex/mappings/''"

definition jsonPatchAddOp :: string where
  "jsonPatchAddOp = ''add''"

definition jsonPatchReplaceOp :: string where
  "jsonPatchReplaceOp = ''replace''"

definition StatusOK :: int where
  "StatusOK = 200"

definition StatusNotFound :: int where
  "StatusNotFound = 404"

text \<open>
  Every error value the two copies create, one constructor for each; \<open>External\<close> is an
  error handed back by a library or by the environment (transport, JSON, file system,
  output stream, key parsing).
\<close>

datatype error =
    errURLRequired
  | errInvalidURL error string
  | errNoBasePath
  | errFilesRequired
  | errFileIndexURLRequired
  | errInvalidFileIndexURL string
  | errFileIndexUpdateOTPRequired
  | errFileIndexNextUpdateOTPRequired
  | errNoFileExtension
  | errUnknownExtension
  | errSigningKeyOrFileRequired
  | errOnlyOneOfSigningKeyOrFileRequired
  | errPrivateKeyNotFoundInPEM
  | errUploadStatus int string
  | errUpdateStatus int string
  | errFileIndexNotFound string
  | errFileIndexRetrieve string int string
  | errBasePathMismatch string string
  | errUniqueSuffixNotProvided string
  | External string

subsection \<open>Data\<close>

text \<open>
  The struct types \<open>fileInfo\<close>, \<open>files\<close> (a slice of pointers to \<open>fileInfo\<close>),
  \<open>uploadFile\<close> and \<open>jsonPatch\<close> and the packages \<open>model\<close> and \<open>httpclient\<close>
  are declared outside the two source files. The records have the fields that the source
  reads and writes; the fields of \<open>uploadFile\<close> carry the prefix \<open>uf_\<close>, and the
  path of a parsed URL is \<open>URLPath\<close>.
\<close>

record fileInfo =
  Name :: string
  Content :: string
  ContentType :: string
  ID :: string

record uploadFile =
  uf_ContentType :: string
  uf_Content :: string

record jsonPatch =
  Op :: string
  Path :: string
  Value :: string

record FileIndex =
  BasePath :: string
  Mappings :: "string \<rightharpoonup> string"

record FileIndexDoc =
  FileIndex :: FileIndex

record HTTPResponse =
  StatusCode :: int
  ErrorMsg :: string
  Payload :: string

record URL =
  URLPath :: string

text \<open>
  The command struct. The newer copy names the two password fields
  \<open>fileIndexUpdatePWD\<close> and \<open>fileIndexNextUpdatePWD\<close> and adds the two signing key
  fields. The field \<open>file\<close> is written \<open>c_file\<close> (\<open>file\<close> is reserved in
  Isabelle).
\<close>

record command =
  c_file :: string
  url :: string
  basePath :: string
  fileIndexURL :: string
  fileIndexBaseURL :: string
  fileIndexUpdateOTP :: string
  fileIndexNextUpdateOTP :: string
  noPrompt :: bool

record command_sig = command +
  fileIndexSigningKeyFile :: string
  fileIndexSigningKeyString :: string

subsection \<open>The libraries and the environment\<close>

text \<open>
  The packages the source imports are not part of the repository. Their pure functions
  are parameters, collected in a record: \<open>lib\<close> for the ones both copies call,
  \<open>lib_otp\<close> and \<open>lib_sig\<close> for the ones of one copy. The typed patch objects
  (\<open>jsonpatch.Patch\<close>, \<open>patch.Patch\<close>), the private key and the signer are type
  variables. \<open>files_String\<close> is the \<open>String\<close> method of the type \<open>files\<close>, and
  \<open>unicodeLower\<close> the non-ASCII branch of \<open>strings.ToLower\<close>.
\<close>

record lib =
  url_Parse :: "string \<Rightarrow> error + URL"
  mime_TypeByExtension :: "string \<Rightarrow> string"
  filepath_Clean :: "string \<Rightarrow> string"
  json_Marshal_uploadFile :: "uploadFile \<Rightarrow> error + string"
  json_Unmarshal_string :: "string \<Rightarrow> error + string"
  json_Unmarshal_FileIndexDoc :: "string \<Rightarrow> error + FileIndexDoc"
  json_Marshal_jsonPatch :: "jsonPatch list \<Rightarrow> error + string"
  files_String :: "fileInfo list \<Rightarrow> string"
  unicodeLower :: "string \<Rightarrow> string"

record 'p UpdateRequestInfo =
  DidUniqueSuffix :: string
  UpdateOTP :: string
  NextUpdateOTP :: string
  Patch :: 'p
  MultihashCode :: nat

record ('q, 's) UpdateRequestInfo_sig =
  sig_DidUniqueSuffix :: string
  UpdateRevealValue :: string
  NextUpdateRevealValue :: string
  sig_Patch :: 'q
  sig_MultihashCode :: nat
  Signer :: 's

record 'p lib_otp = lib +
  jsonpatch_DecodePatch :: "string \<Rightarrow> error + 'p"
  docutil_EncodeToString :: "string \<Rightarrow> string"
  helper_NewUpdateRequest :: "'p UpdateRequestInfo \<Rightarrow> error + string"

record ('q, 'k, 's) lib_sig = lib +
  patch_NewJSONPatch :: "string \<Rightarrow> error + 'q"
  pem_Decode :: "string \<Rightarrow> string option"
  x509_ParseECPrivateKey :: "string \<Rightarrow> error + 'k"
  ecsigner_New :: "'k \<Rightarrow> string \<Rightarrow> string \<Rightarrow> 's"
  model_UpdateKeyID :: string
  helper_NewUpdateRequest_sig :: "('q, 's) UpdateRequestInfo_sig \<Rightarrow> error + string"

text \<open>
  What the command does to the outside is recorded as a trace of events, oldest first.
  The outside answers through the record \<open>world\<close>; an answer may depend on everything
  that happened before, so the same request can succeed once and fail later.
\<close>

datatype event =
    HttpGet string
  | HttpPost string string
  | FileRead string
  | Output string
  | PromptRead

type_synonym trace = "event list"

record world =
  http_get :: "trace \<Rightarrow> string \<Rightarrow> error + HTTPResponse"
  http_post :: "trace \<Rightarrow> string \<Rightarrow> string \<Rightarrow> error + HTTPResponse"
  read_file :: "trace \<Rightarrow> string \<Rightarrow> error + string"
  write_out :: "trace \<Rightarrow> string \<Rightarrow> error option"
  read_in :: "trace \<Rightarrow> string"

fun isPost :: "event \<Rightarrow> bool" where
  "isPost (HttpPost u b) = True"
| "isPost e = False"

fun isNetwork :: "event \<Rightarrow> bool" where
  "isNetwork (HttpGet u) = True"
| "isNetwork (HttpPost u b) = True"
| "isNetwork e = False"

text \<open>
  The calls to the outside. \<open>Fprint\<close>, \<open>Fprintln\<close> and \<open>Prompt\<close> are methods of
  \<open>basecmd.Command\<close>, which is not among the sources: writing returns the error of the
  output stream, if any, and \<open>Prompt\<close> returns the user's answer as the source
  receives it.
\<close>

definition client_Get :: "world \<Rightarrow> string \<Rightarrow> trace \<Rightarrow> (error + HTTPResponse) \<times> trace" where
  "client_Get w u tr = (http_get w tr u, tr @ [HttpGet u])"

definition client_Post ::
  "world \<Rightarrow> string \<Rightarrow> string \<Rightarrow> trace \<Rightarrow> (error + HTTPResponse) \<times> trace" where
  "client_Post w u req tr = (http_post w tr u req, tr @ [HttpPost u req])"

definition ioutil_ReadFile :: "world \<Rightarrow> string \<Rightarrow> trace \<Rightarrow> (error + string) \<times> trace" where
  "ioutil_ReadFile w path tr = (read_file w tr path, tr @ [FileRead path])"

definition Fprint :: "world \<Rightarrow> string \<Rightarrow> trace \<Rightarrow> error option \<times> trace" where
  "Fprint w s tr = (write_out w tr s, tr @ [Output s])"

definition Fprintln :: "world \<Rightarrow> string \<Rightarrow> trace \<Rightarrow> error option \<times> trace" where
  "Fprintln w s tr = Fprint w (s @ [CHR 0x0A]) tr"

definition Prompt :: "world \<Rightarrow> trace \<Rightarrow> string \<times> trace" where
  "Prompt w tr = (read_in w tr, tr @ [PromptRead])"

subsection \<open>Functions with the same text in both copies\<close>

text \<open>\<open>getUniqueSuffix\<close>: the part of the index URL after its last colon.\<close>

definition getUniqueSuffix :: "string \<Rightarrow> error + string" where
  "getUniqueSuffix id' =
     (let p = LastIndex id' '':''
      in if p = -1 then Inl (errUniqueSuffixNotProvided id')
         else Inr (drop (nat (p + 1)) id'))"

text \<open>
  The loop of \<open>getUpdatePatch\<close>: one entry for each file, appended to \<open>patch\<close>.
\<close>

fun getUpdatePatch_loop :: "FileIndex \<Rightarrow> fileInfo list \<Rightarrow> jsonPatch list \<Rightarrow> jsonPatch list" where
  "getUpdatePatch_loop fileIdx [] patch = patch"
| "getUpdatePatch_loop fileIdx (f # fs) patch =
     (let p = \<lparr>Op = [], Path = jsonPatchBasePath @ Name f, Value = ID f\<rparr>;
          p = (if Mappings fileIdx (Name f) \<noteq> None
               then p\<lparr>Op := jsonPatchReplaceOp\<rparr>
               else p\<lparr>Op := jsonPatchAddOp\<rparr>)
      in getUpdatePatch_loop fileIdx fs (patch @ [p]))"

definition contentTypeFromFileName :: "'z lib_scheme \<Rightarrow> string \<Rightarrow> error + string" where
  "contentTypeFromFileName lib fileName =
     (let p = LastIndex fileName ''.''
      in if p = -1 then Inl errNoFileExtension
         else (let contentType = mime_TypeByExtension lib (drop (nat p) fileName)
               in if contentType = [] then Inl errUnknownExtension
                  else Inr contentType))"

text \<open>The first lines of \<open>getFileInfo\<close>: the file name is the path after its last slash.\<close>

definition getFileInfo_fileName :: "string \<Rightarrow> string" where
  "getFileInfo_fileName path =
     (let p = LastIndex path ''/''
      in if p = -1 then path else drop (nat (p + 1)) path)"

definition getFileInfo ::
  "'z lib_scheme \<Rightarrow> world \<Rightarrow> string \<Rightarrow> trace \<Rightarrow> (error + fileInfo) \<times> trace" where
  "getFileInfo lib w path tr =
     (let fileName = getFileInfo_fileName path
      in case contentTypeFromFileName lib fileName of
           Inl err \<Rightarrow> (Inl err, tr)
         | Inr contentType \<Rightarrow>
             (case ioutil_ReadFile w (filepath_Clean lib path) tr of
                (Inl err, tr') \<Rightarrow> (Inl err, tr')
              | (Inr content, tr') \<Rightarrow>
                  (Inr \<lparr>Name = fileName, Content = content,
                        ContentType = contentType, ID = []\<rparr>, tr')))"

fun getFiles_loop ::
  "'z lib_scheme \<Rightarrow> world \<Rightarrow> string list \<Rightarrow> fileInfo list \<Rightarrow> trace
     \<Rightarrow> (error + fileInfo list) \<times> trace" where
  "getFiles_loop lib w [] f tr = (Inr f, tr)"
| "getFiles_loop lib w (filePath # rest) f tr =
     (case getFileInfo lib w filePath tr of
        (Inl err, tr') \<Rightarrow> (Inl err, tr')
      | (Inr fileInfo, tr') \<Rightarrow> getFiles_loop lib w rest (f @ [fileInfo]) tr')"

definition getFiles ::
  "'z lib_scheme \<Rightarrow> world \<Rightarrow> 'c command_scheme \<Rightarrow> trace \<Rightarrow> (error + fileInfo list) \<times> trace" where
  "getFiles lib w c tr = getFiles_loop lib w (Split (c_file c) CHR '';'') [] tr"

definition getFileIndex ::
  "'z lib_scheme \<Rightarrow> world \<Rightarrow> 'c command_scheme \<Rightarrow> trace \<Rightarrow> (error + FileIndex) \<times> trace" where
  "getFileIndex lib w c tr =
     (case client_Get w (fileIndexURL c) tr of
        (Inl err, tr') \<Rightarrow> (Inl err, tr')
      | (Inr resp, tr') \<Rightarrow>
          if StatusCode resp \<noteq> StatusOK then
            (if StatusCode resp = StatusNotFound
             then (Inl (errFileIndexNotFound (fileIndexURL c)), tr')
             else (Inl (errFileIndexRetrieve (fileIndexURL c) (StatusCode resp)
                          (ErrorMsg resp)), tr'))
          else
            (case json_Unmarshal_FileIndexDoc lib (Payload resp) of
               Inl err \<Rightarrow> (Inl err, tr')
             | Inr fileIdxDoc \<Rightarrow>
                 if BasePath (FileIndex fileIdxDoc) \<noteq> basePath c
                 then (Inl (errBasePathMismatch (BasePath (FileIndex fileIdxDoc))
                              (basePath c)), tr')
                 else (Inr (FileIndex fileIdxDoc), tr')))"

text \<open>
  The text that \<open>confirmUpload\<close> builds with \<open>Sprintf\<close> before it writes it; the
  statements about the prompt name it.
\<close>

definition confirmUpload_prompt :: "'z lib_scheme \<Rightarrow> string \<Rightarrow> fileInfo list \<Rightarrow> string" where
  "confirmUpload_prompt lib u fs =
     ''Uploading the following files to ['' @ u @ '']'' @ [CHR 0x0A]
       @ files_String lib fs @ [CHR 0x0A] @ msgContinueOrAbort"

definition confirmUpload ::
  "'z lib_scheme \<Rightarrow> world \<Rightarrow> string \<Rightarrow> fileInfo list \<Rightarrow> trace \<Rightarrow> (error + bool) \<times> trace" where
  "confirmUpload lib w u fs tr =
     (let prompt = ''Uploading the following files to ['' @ u @ '']'' @ [CHR 0x0A]
                     @ files_String lib fs @ [CHR 0x0A] @ msgContinueOrAbort
      in case Fprintln w prompt tr of
           (Some err, tr') \<Rightarrow> (Inl err, tr')
         | (None, tr') \<Rightarrow>
             (case Prompt w tr' of
                (answer, tr'') \<Rightarrow> (Inr (ToLower (unicodeLower lib) answer = ''y''), tr'')))"

definition upload ::
  "'z lib_scheme \<Rightarrow> world \<Rightarrow> string \<Rightarrow> string \<Rightarrow> string \<Rightarrow> trace \<Rightarrow> (error + string) \<times> trace" where
  "upload lib w u contentType fileBytes tr =
     (let req = \<lparr>uf_ContentType = contentType, uf_Content = fileBytes\<rparr>
      in case json_Marshal_uploadFile lib req of
           Inl err \<Rightarrow> (Inl err, tr)
         | Inr reqBytes \<Rightarrow>
             (case client_Post w u reqBytes tr of
                (Inl err, tr') \<Rightarrow> (Inl err, tr')
              | (Inr resp, tr') \<Rightarrow>
                  if StatusCode resp \<noteq> StatusOK
                  then (Inl (errUploadStatus (StatusCode resp) (ErrorMsg resp)), tr')
                  else (case json_Unmarshal_string lib (Payload resp) of
                          Inl err \<Rightarrow> (Inl err, tr')
                        | Inr fileID \<Rightarrow> (Inr fileID, tr'))))"

text \<open>
  The upload loop of \<open>run\<close>. The slice holds pointers, so \<open>file.ID = id\<close> changes the
  element of \<open>f\<close>; the model returns the list with the IDs set. \<open>done\<close> holds the files
  already uploaded.
\<close>

fun run_uploads ::
  "'z lib_scheme \<Rightarrow> world \<Rightarrow> string \<Rightarrow> fileInfo list \<Rightarrow> fileInfo list \<Rightarrow> trace
     \<Rightarrow> (error + fileInfo list) \<times> trace" where
  "run_uploads lib w u [] done tr = (Inr done, tr)"
| "run_uploads lib w u (file # rest) done tr =
     (case upload lib w u (ContentType file) (Content file) tr of
        (Inl e, tr') \<Rightarrow> (Inl e, tr')
      | (Inr id', tr') \<Rightarrow> run_uploads lib w u rest (done @ [file\<lparr>ID := id'\<rparr>]) tr')"

text \<open>
  \<open>run\<close>, whose text differs between the copies only in the \<open>updateIndexFile\<close> it
  calls: that method is the parameter \<open>upd\<close>. \<open>run_from_uploads\<close> is the part of
  \<open>run\<close> from the upload loop on.
\<close>

definition run_from_uploads ::
  "(FileIndex \<Rightarrow> fileInfo list \<Rightarrow> trace \<Rightarrow> error option \<times> trace)
     \<Rightarrow> 'z lib_scheme \<Rightarrow> world \<Rightarrow> 'c command_scheme \<Rightarrow> FileIndex \<Rightarrow> fileInfo list \<Rightarrow> trace
     \<Rightarrow> error option \<times> trace" where
  "run_from_uploads upd lib w c fileIdx f tr =
     (case run_uploads lib w (url c) f [] tr of
        (Inl e, tr') \<Rightarrow> (Some e, tr')
      | (Inr f', tr') \<Rightarrow>
          (case upd fileIdx f' tr' of
             (Some err, tr'') \<Rightarrow> (Some err, tr'')
           | (None, tr'') \<Rightarrow> Fprint w (files_String lib f') tr''))"

definition run_with ::
  "(FileIndex \<Rightarrow> fileInfo list \<Rightarrow> trace \<Rightarrow> error option \<times> trace)
     \<Rightarrow> 'z lib_scheme \<Rightarrow> world \<Rightarrow> 'c command_scheme \<Rightarrow> trace \<Rightarrow> error option \<times> trace" where
  "run_with upd lib w c tr =
     (case getFileIndex lib w c tr of
        (Inl err, tr1) \<Rightarrow> (Some err, tr1)
      | (Inr fileIdx, tr1) \<Rightarrow>
          (case getFiles lib w c tr1 of
             (Inl err, tr2) \<Rightarrow> (Some err, tr2)
           | (Inr f, tr2) \<Rightarrow>
               if \<not> noPrompt c then
                 (case confirmUpload lib w (url c) f tr2 of
                    (Inl e, tr3) \<Rightarrow> (Some e, tr3)
                  | (Inr confirmed, tr3) \<Rightarrow>
                      if \<not> confirmed then Fprintln w msgAborted tr3
                      else run_from_uploads upd lib w c fileIdx f tr3)
               else run_from_uploads upd lib w c fileIdx f tr2))"

subsection \<open>The older copy: update authenticated by one-time passwords\<close>

text \<open>
  \<open>validateAndProcessArgs\<close> sets \<open>basePath\<close> and \<open>fileIndexBaseURL\<close> and
  calls nothing outside.
\<close>

definition validateAndProcessArgs ::
  "'z lib_scheme \<Rightarrow> 'c command_scheme \<Rightarrow> error + 'c command_scheme" where
  "validateAndProcessArgs lib c =
     (if url c = [] then Inl errURLRequired
      else case url_Parse lib (url c) of
        Inl err \<Rightarrow> Inl (errInvalidURL err (url c))
      | Inr u \<Rightarrow>
          if URLPath u = [] then Inl errNoBasePath
          else (let c = c\<lparr>basePath := URLPath u\<rparr>
                in if c_file c = [] then Inl errFilesRequired
                   else if fileIndexURL c = [] then Inl errFileIndexURLRequired
                   else (let pos = LastIndex (fileIndexURL c) ''/''
                         in if pos = -1 then Inl (errInvalidFileIndexURL (fileIndexURL c))
                            else if fileIndexUpdateOTP c = []
                              then Inl errFileIndexUpdateOTPRequired
                            else if fileIndexNextUpdateOTP c = []
                              then Inl errFileIndexNextUpdateOTPRequired
                            else Inr (c\<lparr>fileIndexBaseURL :=
                                           take (nat pos) (fileIndexURL c)\<rparr>))))"

definition getUpdatePatch ::
  "('p, 'z) lib_otp_scheme \<Rightarrow> FileIndex \<Rightarrow> fileInfo list \<Rightarrow> error + 'p" where
  "getUpdatePatch lib fileIdx fs =
     (let patch = getUpdatePatch_loop fileIdx fs []
      in case json_Marshal_jsonPatch lib patch of
           Inl err \<Rightarrow> Inl err
         | Inr patchBytes \<Rightarrow>
             (case jsonpatch_DecodePatch lib patchBytes of
                Inl err \<Rightarrow> Inl err
              | Inr jsonPatch \<Rightarrow> Inr jsonPatch))"

definition getUpdateRequest ::
  "('p, 'z) lib_otp_scheme \<Rightarrow> 'c command_scheme \<Rightarrow> 'p \<Rightarrow> error + string" where
  "getUpdateRequest lib c patch =
     (case getUniqueSuffix (fileIndexURL c) of
        Inl err \<Rightarrow> Inl err
      | Inr uniqueSuffix \<Rightarrow>
          helper_NewUpdateRequest lib
            \<lparr>DidUniqueSuffix = uniqueSuffix,
             UpdateOTP = docutil_EncodeToString lib (fileIndexUpdateOTP c),
             NextUpdateOTP = docutil_EncodeToString lib (fileIndexNextUpdateOTP c),
             Patch = patch,
             MultihashCode = sha2_256\<rparr>)"

definition updateIndexFile ::
  "('p, 'z) lib_otp_scheme \<Rightarrow> world \<Rightarrow> 'c command_scheme \<Rightarrow> FileIndex \<Rightarrow> fileInfo list
     \<Rightarrow> trace \<Rightarrow> error option \<times> trace" where
  "updateIndexFile lib w c fileIdx fs tr =
     (case getUpdatePatch lib fileIdx fs of
        Inl err \<Rightarrow> (Some err, tr)
      | Inr patch \<Rightarrow>
          (case getUpdateRequest lib c patch of
             Inl err \<Rightarrow> (Some err, tr)
           | Inr req \<Rightarrow>
               (case client_Post w (fileIndexBaseURL c) req tr of
                  (Inl err, tr') \<Rightarrow> (Some err, tr')
                | (Inr resp, tr') \<Rightarrow>
                    if StatusCode resp \<noteq> StatusOK
                    then (Some (errUpdateStatus (StatusCode resp) (ErrorMsg resp)), tr')
                    else (None, tr'))))"

definition run ::
  "('p, 'z) lib_otp_scheme \<Rightarrow> world \<Rightarrow> 'c command_scheme \<Rightarrow> trace \<Rightarrow> error option \<times> trace" where
  "run lib w c tr = run_with (updateIndexFile lib w c) lib w c tr"

text \<open>
  The command built by \<open>newCmd\<close>: \<open>PreRunE\<close> validates the arguments, and \<open>RunE\<close>
  runs only when the validation returned no error.
\<close>

definition execute ::
  "('p, 'z) lib_otp_scheme \<Rightarrow> world \<Rightarrow> 'c command_scheme \<Rightarrow> trace \<Rightarrow> error option \<times> trace" where
  "execute lib w c tr =
     (case validateAndProcessArgs lib c of
        Inl err \<Rightarrow> (Some err, tr)
      | Inr c' \<Rightarrow> run lib w c' tr)"

subsection \<open>The newer copy: signed update\<close>

definition validateSigningKey :: "'c command_sig_scheme \<Rightarrow> error option" where
  "validateSigningKey c =
     (if fileIndexSigningKeyFile c = [] \<and> fileIndexSigningKeyString c = []
      then Some errSigningKeyOrFileRequired
      else if fileIndexSigningKeyFile c \<noteq> [] \<and> fileIndexSigningKeyString c \<noteq> []
      then Some errOnlyOneOfSigningKeyOrFileRequired
      else None)"

definition validateAndProcessArgs_sig ::
  "'z lib_scheme \<Rightarrow> 'c command_sig_scheme \<Rightarrow> error + 'c command_sig_scheme" where
  "validateAndProcessArgs_sig lib c =
     (if url c = [] then Inl errURLRequired
      else case url_Parse lib (url c) of
        Inl err \<Rightarrow> Inl (errInvalidURL err (url c))
      | Inr u \<Rightarrow>
          if URLPath u = [] then Inl errNoBasePath
          else (let c = c\<lparr>basePath := URLPath u\<rparr>
                in if c_file c = [] then Inl errFilesRequired
                   else if fileIndexURL c = [] then Inl errFileIndexURLRequired
                   else (let pos = LastIndex (fileIndexURL c) ''/''
                         in if pos = -1 then Inl (errInvalidFileIndexURL (fileIndexURL c))
                            else if fileIndexUpdateOTP c = []
                              then Inl errFileIndexUpdateOTPRequired
                            else if fileIndexNextUpdateOTP c = []
                              then Inl errFileIndexNextUpdateOTPRequired
                            else (case validateSigningKey c of
                                    Some err \<Rightarrow> Inl err
                                  | None \<Rightarrow>
                                      Inr (c\<lparr>fileIndexBaseURL :=
                                               take (nat pos) (fileIndexURL c)\<rparr>)))))"

definition getUpdatePatch_sig ::
  "'z lib_scheme \<Rightarrow> FileIndex \<Rightarrow> fileInfo list \<Rightarrow> error + string" where
  "getUpdatePatch_sig lib fileIdx fs =
     (let patch = getUpdatePatch_loop fileIdx fs []
      in case json_Marshal_jsonPatch lib patch of
           Inl err \<Rightarrow> Inl err
         | Inr patchBytes \<Rightarrow> Inr patchBytes)"

text \<open>\<open>pem_Decode\<close> gives the bytes of the first PEM block, \<open>None\<close> for a nil block.\<close>

definition privateKeyFromPEM :: "('q, 'k, 's, 'z) lib_sig_scheme \<Rightarrow> string \<Rightarrow> error + 'k" where
  "privateKeyFromPEM lib privateKeyPEM =
     (case pem_Decode lib privateKeyPEM of
        None \<Rightarrow> Inl errPrivateKeyNotFoundInPEM
      | Some privBlock \<Rightarrow>
          (case x509_ParseECPrivateKey lib privBlock of
             Inl err \<Rightarrow> Inl err
           | Inr privKey \<Rightarrow> Inr privKey))"

definition privateKeyFromFile ::
  "('q, 'k, 's, 'z) lib_sig_scheme \<Rightarrow> world \<Rightarrow> string \<Rightarrow> trace \<Rightarrow> (error + 'k) \<times> trace" where
  "privateKeyFromFile lib w keyFile tr =
     (case ioutil_ReadFile w (filepath_Clean lib keyFile) tr of
        (Inl err, tr') \<Rightarrow> (Inl err, tr')
      | (Inr keyBytes, tr') \<Rightarrow> (privateKeyFromPEM lib keyBytes, tr'))"

definition signingPrivateKey ::
  "('q, 'k, 's, 'z) lib_sig_scheme \<Rightarrow> world \<Rightarrow> 'c command_sig_scheme \<Rightarrow> trace
     \<Rightarrow> (error + 'k) \<times> trace" where
  "signingPrivateKey lib w c tr =
     (if fileIndexSigningKeyFile c \<noteq> []
      then privateKeyFromFile lib w (fileIndexSigningKeyFile c) tr
      else (privateKeyFromPEM lib (fileIndexSigningKeyString c), tr))"

definition updateKeySigner ::
  "('q, 'k, 's, 'z) lib_sig_scheme \<Rightarrow> world \<Rightarrow> 'c command_sig_scheme \<Rightarrow> trace
     \<Rightarrow> (error + 's) \<times> trace" where
  "updateKeySigner lib w c tr =
     (case signingPrivateKey lib w c tr of
        (Inl err, tr') \<Rightarrow> (Inl err, tr')
      | (Inr privateKey, tr') \<Rightarrow>
          (Inr (ecsigner_New lib privateKey signingAlgorithm (model_UpdateKeyID lib)), tr'))"

definition getUpdateRequest_sig ::
  "('q, 'k, 's, 'z) lib_sig_scheme \<Rightarrow> world \<Rightarrow> 'c command_sig_scheme \<Rightarrow> string \<Rightarrow> trace
     \<Rightarrow> (error + string) \<times> trace" where
  "getUpdateRequest_sig lib w c patchStr tr =
     (case getUniqueSuffix (fileIndexURL c) of
        Inl err \<Rightarrow> (Inl err, tr)
      | Inr uniqueSuffix \<Rightarrow>
          (case patch_NewJSONPatch lib patchStr of
             Inl err \<Rightarrow> (Inl err, tr)
           | Inr updatePatch \<Rightarrow>
               (case updateKeySigner lib w c tr of
                  (Inl err, tr') \<Rightarrow> (Inl err, tr')
                | (Inr signer, tr') \<Rightarrow>
                    (helper_NewUpdateRequest_sig lib
                       \<lparr>sig_DidUniqueSuffix = uniqueSuffix,
                        UpdateRevealValue = fileIndexUpdateOTP c,
                        NextUpdateRevealValue = fileIndexNextUpdateOTP c,
                        sig_Patch = updatePatch,
                        sig_MultihashCode = sha2_256,
                        Signer = signer\<rparr>, tr'))))"

definition updateIndexFile_sig ::
  "('q, 'k, 's, 'z) lib_sig_scheme \<Rightarrow> world \<Rightarrow> 'c command_sig_scheme \<Rightarrow> FileIndex
     \<Rightarrow> fileInfo list \<Rightarrow> trace \<Rightarrow> error option \<times> trace" where
  "updateIndexFile_sig lib w c fileIdx fs tr =
     (case getUpdatePatch_sig lib fileIdx fs of
        Inl err \<Rightarrow> (Some err, tr)
      | Inr patch \<Rightarrow>
          (case getUpdateRequest_sig lib w c patch tr of
             (Inl err, tr1) \<Rightarrow> (Some err, tr1)
           | (Inr req, tr1) \<Rightarrow>
               (case client_Post w (fileIndexBaseURL c) req tr1 of
                  (Inl err, tr') \<Rightarrow> (Some err, tr')
                | (Inr resp, tr') \<Rightarrow>
                    if StatusCode resp \<noteq> StatusOK
                    then (Some (errUpdateStatus (StatusCode resp) (ErrorMsg resp)), tr')
                    else (None, tr'))))"

definition run_sig ::
  "('q, 'k, 's, 'z) lib_sig_scheme \<Rightarrow> world \<Rightarrow> 'c command_sig_scheme \<Rightarrow> trace
     \<Rightarrow> error option \<times> trace" where
  "run_sig lib w c tr = run_with (updateIndexFile_sig lib w c) lib w c tr"

definition execute_sig ::
  "('q, 'k, 's, 'z) lib_sig_scheme \<Rightarrow> world \<Rightarrow> 'c command_sig_scheme \<Rightarrow> trace
     \<Rightarrow> error option \<times> trace" where
  "execute_sig lib w c tr =
     (case validateAndProcessArgs_sig lib c of
        Inl err \<Rightarrow> (Some err, tr)
      | Inr c' \<Rightarrow> run_sig lib w c' tr)"

subsection \<open>A concrete library, environment and command\<close>

text \<open>
  Stand-ins for the libraries and the outside, used to run the model on the scenarios of
  the specification. The URL parser drops the eight bytes of \<open>http://h\<close>; the index
  document arrives as its base path, with no mappings; JSON encodings are plain
  concatenations.
\<close>

definition lib_otp0 :: "string lib_otp" where
  "lib_otp0 =
     \<lparr>url_Parse = (\<lambda>s. Inr \<lparr>URLPath = drop 8 s\<rparr>),
      mime_TypeByExtension = (\<lambda>ext. if ext = ''.json'' then ''application/json'' else []),
      filepath_Clean = (\<lambda>p. p),
      json_Marshal_uploadFile = (\<lambda>r. Inr (uf_ContentType r @ ''|'' @ uf_Content r)),
      json_Unmarshal_string = (\<lambda>b. Inr b),
      json_Unmarshal_FileIndexDoc =
        (\<lambda>b. Inr \<lparr>FileIndex = \<lparr>BasePath = b, Mappings = Map.empty\<rparr>\<rparr>),
      json_Marshal_jsonPatch =
        (\<lambda>ps. Inr (concat (map (\<lambda>p. Op p @ '' '' @ Path p @ '' '' @ Value p @ '';'') ps))),
      files_String = (\<lambda>fs. concat (map (\<lambda>f. Name f @ '' '') fs)),
      unicodeLower = (\<lambda>s. s),
      jsonpatch_DecodePatch = (\<lambda>b. Inr b),
      docutil_EncodeToString = (\<lambda>s. s),
      helper_NewUpdateRequest = (\<lambda>i. Inr (DidUniqueSuffix i @ ''|'' @ Patch i))\<rparr>"

definition lib_sig0 :: "(string, string, string) lib_sig" where
  "lib_sig0 =
     \<lparr>url_Parse = (\<lambda>s. Inr \<lparr>URLPath = drop 8 s\<rparr>),
      mime_TypeByExtension = (\<lambda>ext. if ext = ''.json'' then ''application/json'' else []),
      filepath_Clean = (\<lambda>p. p),
      json_Marshal_uploadFile = (\<lambda>r. Inr (uf_ContentType r @ ''|'' @ uf_Content r)),
      json_Unmarshal_string = (\<lambda>b. Inr b),
      json_Unmarshal_FileIndexDoc =
        (\<lambda>b. Inr \<lparr>FileIndex = \<lparr>BasePath = b, Mappings = Map.empty\<rparr>\<rparr>),
      json_Marshal_jsonPatch =
        (\<lambda>ps. Inr (concat (map (\<lambda>p. Op p @ '' '' @ Path p @ '' '' @ Value p @ '';'') ps))),
      files_String = (\<lambda>fs. concat (map (\<lambda>f. Name f @ '' '') fs)),
      unicodeLower = (\<lambda>s. s),
      patch_NewJSONPatch = (\<lambda>b. Inr b),
      pem_Decode = (\<lambda>b. Some b),
      x509_ParseECPrivateKey = (\<lambda>b. Inr b),
      ecsigner_New = (\<lambda>k alg kid. k @ alg @ kid),
      model_UpdateKeyID = ''#update'',
      helper_NewUpdateRequest_sig = (\<lambda>i. Inr (sig_DidUniqueSuffix i @ ''|'' @ sig_Patch i))\<rparr>"

text \<open>
  The outside in which everything succeeds: the index document has the base path
  \<open>/content\<close>, every POST is answered with the ID \<open>X\<close>, and the user answers \<open>n\<close>.
\<close>

definition world0 :: world where
  "world0 =
     \<lparr>http_get = (\<lambda>tr u. Inr \<lparr>StatusCode = 200, ErrorMsg = [], Payload = ''/content''\<rparr>),
      http_post = (\<lambda>tr u b. Inr \<lparr>StatusCode = 200, ErrorMsg = [], Payload = ''X''\<rparr>),
      read_file = (\<lambda>tr p. Inr ''{}''),
      write_out = (\<lambda>tr s. None),
      read_in = (\<lambda>tr. ''n'')\<rparr>"

text \<open>The command after a successful validation of the flags of the first scenario.\<close>

definition cmd0 :: command where
  "cmd0 =
     \<lparr>c_file = ''a.json'',
      url = ''http://h/content'',
      basePath = ''/content'',
      fileIndexURL = ''http://h/file/file:idx:ABC123'',
      fileIndexBaseURL = ''http://h/file'',
      fileIndexUpdateOTP = ''pwd1'',
      fileIndexNextUpdateOTP = ''pwd2'',
      noPrompt = False\<rparr>"

definition cmd_sig0 :: command_sig where
  "cmd_sig0 =
     \<lparr>c_file = ''a.json'',
      url = ''http://h/content'',
      basePath = ''/content'',
      fileIndexURL = ''http://h/file/file:idx:ABC123'',
      fileIndexBaseURL = ''http://h/file'',
      fileIndexUpdateOTP = ''pwd1'',
      fileIndexNextUpdateOTP = ''pwd2'',
      noPrompt = False,
      fileIndexSigningKeyFile = [],
      fileIndexSigningKeyString = ''KEY''\<rparr>"

text \<open>
  An outside in which only the first POST succeeds, and three loaded files.
\<close>

definition world1 :: world where
  "world1 =
     world0\<lparr>http_post :=
       (\<lambda>tr u b. if filter isPost tr = []
                  then Inr \<lparr>StatusCode = 200, ErrorMsg = [], Payload = ''X''\<rparr>
                  else Inr \<lparr>StatusCode = 500, ErrorMsg = ''boom'', Payload = []\<rparr>)\<rparr>"

definition file_a :: fileInfo where
  "file_a = \<lparr>Name = ''a.json'', Content = ''{}'', ContentType = ''application/json'', ID = []\<rparr>"

definition file_b :: fileInfo where
  "file_b = \<lparr>Name = ''b.json'', Content = ''[]'', ContentType = ''application/json'', ID = []\<rparr>"

definition file_c :: fileInfo where
  "file_c = \<lparr>Name = ''c.json'', Content = ''0'', ContentType = ''application/json'', ID = []\<rparr>"

text \<open>
  An outside whose output stream refuses the abort notice, and one for each answer of the
  user.
\<close>

definition world_closed :: world where
  "world_closed =
     world0\<lparr>write_out :=
       (\<lambda>tr s. if s = msgAborted @ [CHR 0x0A] then Some (External ''closed'') else None)\<rparr>"

definition world_answer :: "string \<Rightarrow> world" where
  "world_answer a = world0\<lparr>read_in := (\<lambda>tr. a)\<rparr>"

section \<open>Properties\<close>

subsection \<open>Facts about the string functions\<close>

lemma LastIndex_absent: "c \<notin> set s \<Longrightarrow> LastIndex s [c] = -1"
  by (induction s) (auto simp: Let_def)

lemma LastIndex_last:
  "c \<notin> set suf \<Longrightarrow> LastIndex (pre @ c # suf) [c] = int (length pre)"
  by (induction pre) (auto simp: Let_def LastIndex_absent)

lemma nat_int_succ: "nat (int n + 1) = Suc n"
  by linarith

subsection \<open>The unique suffix\<close>

text \<open>
  Claim C2. For every index document URL with at least one colon, \<open>getUniqueSuffix\<close>
  returns exactly the part after the last colon: the URL splits into a prefix, a colon
  and a suffix without colon, and the suffix is the result. For every string without a
  colon it fails with the error "unique suffix not provided in URL", which carries the
  string (the specification files this error under ProtocolError).
\<close>

theorem getUniqueSuffix_spec:
  "(CHR '':'' \<in> set u \<longrightarrow>
      (\<exists>pre suf. u = pre @ '':'' @ suf \<and> CHR '':'' \<notin> set suf
         \<and> getUniqueSuffix u = Inr suf))
   \<and> (CHR '':'' \<notin> set u \<longrightarrow> getUniqueSuffix u = Inl (errUniqueSuffixNotProvided u))"
proof (intro conjI impI)
  assume "CHR '':'' \<in> set u"
  then obtain pre suf where u: "u = pre @ CHR '':'' # suf" and suf: "CHR '':'' \<notin> set suf"
    by (auto dest: split_list_last)
  have "getUniqueSuffix u = Inr suf"
    using suf by (simp add: getUniqueSuffix_def u LastIndex_last Let_def nat_int_succ)
  with u suf show "\<exists>pre suf. u = pre @ '':'' @ suf \<and> CHR '':'' \<notin> set suf
      \<and> getUniqueSuffix u = Inr suf"
    by auto
next
  assume "CHR '':'' \<notin> set u"
  then show "getUniqueSuffix u = Inl (errUniqueSuffixNotProvided u)"
    by (simp add: getUniqueSuffix_def LastIndex_absent)
qed

text \<open>The scenario of the specification, and a string without colon.\<close>

theorem getUniqueSuffix_spec_witness:
  "CHR '':'' \<in> set ''http://h/file/file:idx:ABC123''
   \<and> getUniqueSuffix ''http://h/file/file:idx:ABC123'' = Inr ''ABC123''
   \<and> CHR '':'' \<notin> set ''ABC123''
   \<and> getUniqueSuffix ''ABC123'' = Inl (errUniqueSuffixNotProvided ''ABC123'')"
  using getUniqueSuffix_spec [of "''http://h/file/file:idx:ABC123''"]
    getUniqueSuffix_spec [of "''ABC123''"]
  by (simp add: getUniqueSuffix_def)

subsection \<open>Helper facts: the patch loop and lower-casing\<close>

lemma getUpdatePatch_loop_map:
  "getUpdatePatch_loop fileIdx fs patch =
     patch @ map (\<lambda>f. \<lparr>Op = (if Name f \<in> dom (Mappings fileIdx) then ''replace'' else ''add''),
                        Path = ''/fileIndex/mappings/'' @ Name f, Value = ID f\<rparr>) fs"
  by (induction fs arbitrary: patch)
     (auto simp: Let_def jsonPatchBasePath_def jsonPatchReplaceOp_def jsonPatchAddOp_def)

lemma char_of_121: "(char_of (121::nat) :: char) = CHR ''y''"
proof -
  have n: "(of_char CHR ''y'' :: nat) = 121" by simp
  have "(char_of (of_char CHR ''y'' :: nat) :: char) = CHR ''y''" by (rule char_of_char)
  then show ?thesis by (simp only: n)
qed

lemma lowerByte_y: "lowerByte c = CHR ''y'' \<longleftrightarrow> c = CHR ''y'' \<or> c = CHR ''Y''"
proof
  assume l: "lowerByte c = CHR ''y''"
  show "c = CHR ''y'' \<or> c = CHR ''Y''"
  proof (cases "65 \<le> (of_char c :: nat) \<and> (of_char c :: nat) \<le> 90")
    case True
    with l have "char_of ((of_char c :: nat) + 32) = CHR ''y''"
      by (simp add: lowerByte_def)
    then have "(of_char (char_of ((of_char c :: nat) + 32) :: char) :: nat) = of_char CHR ''y''"
      by simp
    then have "((of_char c :: nat) + 32) mod 256 = 121"
      by simp
    with True have "(of_char c :: nat) = 89" by simp
    then have "(of_char c :: nat) = of_char CHR ''Y''" by simp
    then have "c = CHR ''Y''" by (simp only: of_char_eq_iff)
    then show ?thesis ..
  next
    case False
    with l show ?thesis by (simp add: lowerByte_def)
  qed
next
  assume "c = CHR ''y'' \<or> c = CHR ''Y''"
  then show "lowerByte c = CHR ''y''"
    by (auto simp: lowerByte_def char_of_121)
qed

lemma ToLower_ascii_y:
  "isASCII s \<Longrightarrow> ToLower ul s = ''y'' \<longleftrightarrow> s = ''y'' \<or> s = ''Y''"
  by (cases s) (auto simp: ToLower_def lowerByte_y)

lemma isASCII_y: "isASCII ''y''" "isASCII ''Y''"
  by (simp_all add: isASCII_def)

lemma ToLower_y:
  assumes "\<And>s. \<not> isASCII s \<Longrightarrow> ul s \<noteq> ''y''"
  shows "ToLower ul s = ''y'' \<longleftrightarrow> s = ''y'' \<or> s = ''Y''"
proof (cases "isASCII s")
  case True
  then show ?thesis by (rule ToLower_ascii_y)
next
  case False
  with assms have "ToLower ul s \<noteq> ''y''" by (simp add: ToLower_def)
  moreover from False have "s \<noteq> ''y''" "s \<noteq> ''Y''" using isASCII_y by auto
  ultimately show ?thesis by simp
qed

subsection \<open>Helper facts: what each step adds to the trace\<close>

lemma getFileIndex_trace: "snd (getFileIndex lib w c tr) = tr @ [HttpGet (fileIndexURL c)]"
  by (simp add: getFileIndex_def client_Get_def split: sum.splits)

lemma getFileIndex_fetched:
  assumes "http_get w tr (fileIndexURL c) = Inr resp"
    and "StatusCode resp = 200"
    and "json_Unmarshal_FileIndexDoc lib (Payload resp) = Inr doc"
  shows "getFileIndex lib w c tr =
           (if BasePath (FileIndex doc) \<noteq> basePath c
            then Inl (errBasePathMismatch (BasePath (FileIndex doc)) (basePath c))
            else Inr (FileIndex doc),
            tr @ [HttpGet (fileIndexURL c)])"
  using assms by (simp add: getFileIndex_def client_Get_def StatusOK_def)

lemma getFileInfo_network:
  "filter isNetwork (snd (getFileInfo lib w p tr)) = filter isNetwork tr"
  by (simp add: getFileInfo_def ioutil_ReadFile_def Let_def split: sum.splits)

lemma getFiles_loop_network:
  "filter isNetwork (snd (getFiles_loop lib w ps f tr)) = filter isNetwork tr"
proof (induction ps arbitrary: f tr)
  case Nil
  show ?case by simp
next
  case (Cons p ps)
  show ?case
  proof (cases "getFileInfo lib w p tr")
    case (Pair r tr')
    with getFileInfo_network [of lib w p tr]
    have n: "filter isNetwork tr' = filter isNetwork tr" by simp
    show ?thesis
    proof (cases r)
      case (Inl e)
      with Pair n show ?thesis by simp
    next
      case (Inr fi)
      with Pair n Cons.IH [of "f @ [fi]" tr'] show ?thesis by simp
    qed
  qed
qed

lemma contentTypeFromFileName_no_dot:
  "CHR ''.'' \<notin> set n \<Longrightarrow> contentTypeFromFileName lib n = Inl errNoFileExtension"
  by (simp add: contentTypeFromFileName_def LastIndex_absent)

lemma getFileInfo_no_dot:
  "CHR ''.'' \<notin> set (getFileInfo_fileName p)
     \<Longrightarrow> getFileInfo lib w p tr = (Inl errNoFileExtension, tr)"
  by (simp add: getFileInfo_def contentTypeFromFileName_no_dot)

lemma getFiles_loop_no_dot:
  "p \<in> set ps \<Longrightarrow> CHR ''.'' \<notin> set (getFileInfo_fileName p)
     \<Longrightarrow> \<exists>e. fst (getFiles_loop lib w ps f tr) = Inl e"
proof (induction ps arbitrary: f tr)
  case Nil
  then show ?case by simp
next
  case (Cons q ps)
  show ?case
  proof (cases "getFileInfo lib w q tr")
    case (Pair r tr')
    show ?thesis
    proof (cases r)
      case (Inl e)
      with Pair show ?thesis by simp
    next
      case (Inr fi)
      with Pair Cons.prems getFileInfo_no_dot [of p lib w tr] have "p \<in> set ps" by auto
      from Cons.IH [OF this Cons.prems(2), of "f @ [fi]" tr'] Pair Inr show ?thesis by simp
    qed
  qed
qed

lemma getFiles_loop_first_no_dot:
  "getFiles_loop lib w pre f tr = (Inr f', tr') \<Longrightarrow> CHR ''.'' \<notin> set (getFileInfo_fileName p)
     \<Longrightarrow> getFiles_loop lib w (pre @ p # post) f tr = (Inl errNoFileExtension, tr')"
proof (induction pre arbitrary: f tr)
  case Nil
  then show ?case by (simp add: getFileInfo_no_dot)
next
  case (Cons q pre)
  then show ?case
    by (cases "getFileInfo lib w q tr") (auto split: sum.splits)
qed

lemma filter_isPost_isNetwork: "filter isPost (filter isNetwork xs) = filter isPost xs"
proof -
  have "\<And>e. isPost e \<Longrightarrow> isNetwork e"
    by (case_tac e) simp_all
  then show ?thesis by (induction xs) auto
qed

lemma no_post_of_network:
  assumes "filter isNetwork tr' = filter isNetwork tr @ [HttpGet u]"
  shows "filter isPost tr' = filter isPost tr"
proof -
  have "filter isPost tr' = filter isPost (filter isNetwork tr')"
    by (simp only: filter_isPost_isNetwork)
  also have "\<dots> = filter isPost (filter isNetwork tr)"
    by (simp add: assms)
  finally show ?thesis by (simp only: filter_isPost_isNetwork)
qed

lemma validateAndProcessArgs_Inr:
  "validateAndProcessArgs lib c = Inr c' \<Longrightarrow>
     \<exists>u. url_Parse lib (url c) = Inr u \<and>
         c' = c\<lparr>basePath := URLPath u,
                fileIndexBaseURL := take (nat (LastIndex (fileIndexURL c) ''/'')) (fileIndexURL c)\<rparr>"
  by (auto simp: validateAndProcessArgs_def Let_def split: if_splits sum.splits)

lemma validateAndProcessArgs_sig_Inr:
  "validateAndProcessArgs_sig lib c = Inr c' \<Longrightarrow>
     \<exists>u. url_Parse lib (url c) = Inr u \<and> validateSigningKey c = None \<and>
         c' = c\<lparr>basePath := URLPath u,
                fileIndexBaseURL := take (nat (LastIndex (fileIndexURL c) ''/'')) (fileIndexURL c)\<rparr>"
  by (auto simp: validateAndProcessArgs_sig_def validateSigningKey_def Let_def
      split: if_splits sum.splits option.splits)

lemma run_with_index_error:
  "getFileIndex lib w c tr = (Inl e, t_idx) \<Longrightarrow> run_with upd lib w c tr = (Some e, t_idx)"
  by (simp add: run_with_def)

lemma run_with_files_error:
  "getFileIndex lib w c tr = (Inr idx, t_idx) \<Longrightarrow> getFiles lib w c t_idx = (Inl e, t_files)
     \<Longrightarrow> run_with upd lib w c tr = (Some e, t_files)"
  by (simp add: run_with_def)

lemma run_with_prompted:
  "\<not> noPrompt c \<Longrightarrow> getFileIndex lib w c tr = (Inr idx, t_idx)
     \<Longrightarrow> getFiles lib w c t_idx = (Inr f, t_files)
     \<Longrightarrow> confirmUpload lib w (url c) f t_files = (Inr confirmed, t_prompt)
     \<Longrightarrow> run_with upd lib w c tr =
           (if confirmed then run_from_uploads upd lib w c idx f t_prompt
            else Fprintln w msgAborted t_prompt)"
  by (simp add: run_with_def)

subsection \<open>A file name without extension\<close>

text \<open>
  Claim C4, as amended. \<open>run\<close> fetches the file index before it loads the files, so
  a path whose file name (the part after the last slash) has no dot does not stop the run
  before every network call. What holds, in both copies (\<open>upd\<close> is the copy's
  \<open>updateIndexFile\<close>): the run fails; its only network call is the GET of the index
  document, and it never issues a POST, so nothing is uploaded and the index is not
  updated. When the index was fetched and the paths before \<open>p\<close> were loaded, the error
  is "content type cannot be deduced since no file extension provided" (a
  ContentTypeError of the specification), returned right after loading those paths.
\<close>

theorem run_no_extension:
  assumes "p \<in> set (Split (c_file c) CHR '';'')"
    and "CHR ''.'' \<notin> set (getFileInfo_fileName p)"
  shows "(\<exists>e tr'. run_with upd lib w c tr = (Some e, tr')
            \<and> filter isNetwork tr' = filter isNetwork tr @ [HttpGet (fileIndexURL c)]
            \<and> filter isPost tr' = filter isPost tr)
         \<and> (getFileIndex lib w c tr = (Inr idx, t_idx)
              \<and> Split (c_file c) CHR '';'' = pre @ p # post
              \<and> getFiles_loop lib w pre [] t_idx = (Inr f, t_files)
            \<longrightarrow> run_with upd lib w c tr = (Some errNoFileExtension, t_files))"
proof (intro conjI impI)
  obtain r t1 where gi: "getFileIndex lib w c tr = (r, t1)"
    by (cases "getFileIndex lib w c tr")
  with getFileIndex_trace [of lib w c tr] have t1: "t1 = tr @ [HttpGet (fileIndexURL c)]"
    by simp
  have "\<exists>e tr'. run_with upd lib w c tr = (Some e, tr')
          \<and> filter isNetwork tr' = filter isNetwork tr @ [HttpGet (fileIndexURL c)]"
  proof (cases r)
    case (Inl e)
    with gi have "run_with upd lib w c tr = (Some e, t1)"
      by (simp add: run_with_index_error)
    with t1 show ?thesis by simp
  next
    case (Inr fileIdx)
    obtain r2 t2 where gf: "getFiles lib w c t1 = (r2, t2)"
      by (cases "getFiles lib w c t1")
    from getFiles_loop_no_dot [OF assms, of lib w "[]" t1] gf
    obtain e where e: "r2 = Inl e" by (auto simp: getFiles_def)
    from getFiles_loop_network [of lib w "Split (c_file c) CHR '';''" "[]" t1] gf
    have "filter isNetwork t2 = filter isNetwork t1" by (simp add: getFiles_def)
    moreover from gi Inr gf e have "run_with upd lib w c tr = (Some e, t2)"
      by (simp add: run_with_files_error)
    ultimately show ?thesis using t1 by simp
  qed
  then obtain e tr' where r: "run_with upd lib w c tr = (Some e, tr')"
    and n: "filter isNetwork tr' = filter isNetwork tr @ [HttpGet (fileIndexURL c)]"
    by blast
  from no_post_of_network [OF n] r n
  show "\<exists>e tr'. run_with upd lib w c tr = (Some e, tr')
          \<and> filter isNetwork tr' = filter isNetwork tr @ [HttpGet (fileIndexURL c)]
          \<and> filter isPost tr' = filter isPost tr"
    by blast
next
  assume a: "getFileIndex lib w c tr = (Inr idx, t_idx)
    \<and> Split (c_file c) CHR '';'' = pre @ p # post
    \<and> getFiles_loop lib w pre [] t_idx = (Inr f, t_files)"
  then have "getFiles lib w c t_idx = (Inl errNoFileExtension, t_files)"
    using getFiles_loop_first_no_dot [of lib w pre "[]" t_idx f t_files p post] assms(2)
    by (simp add: getFiles_def)
  with a show "run_with upd lib w c tr = (Some errNoFileExtension, t_files)"
    by (simp add: run_with_files_error)
qed

text \<open>The definitions that the concrete runs below unfold.\<close>

lemmas eval_defs =
  run_def run_sig_def run_with_def run_from_uploads_def getFileIndex_def client_Get_def
  client_Post_def ioutil_ReadFile_def Fprint_def Fprintln_def Prompt_def confirmUpload_def
  upload_def getFiles_def getFileInfo_def getFileInfo_fileName_def contentTypeFromFileName_def
  StatusOK_def StatusNotFound_def Let_def lib_otp0_def lib_sig0_def world0_def cmd0_def
  cmd_sig0_def

text \<open>
  Two paths, the second one without extension: both copies fail with the no-extension
  error after the GET of the index and the read of the first file.
\<close>

theorem run_no_extension_witness:
  "''README'' \<in> set (Split ''a.json;README'' CHR '';'')
   \<and> CHR ''.'' \<notin> set (getFileInfo_fileName ''README'')
   \<and> run lib_otp0 world0 (cmd0\<lparr>c_file := ''a.json;README''\<rparr>) []
       = (Some errNoFileExtension, [HttpGet ''http://h/file/file:idx:ABC123'', FileRead ''a.json''])
   \<and> run_sig lib_sig0 world0 (cmd_sig0\<lparr>c_file := ''a.json;README''\<rparr>) []
       = (Some errNoFileExtension, [HttpGet ''http://h/file/file:idx:ABC123'', FileRead ''a.json''])"
  using run_no_extension [where p = "''README''" and c = "cmd0\<lparr>c_file := ''a.json;README''\<rparr>"
      and upd = "updateIndexFile lib_otp0 world0 (cmd0\<lparr>c_file := ''a.json;README''\<rparr>)"
      and lib = lib_otp0 and w = world0 and tr = "[]"]
  by (simp add: eval_defs)

text \<open>
  Claim C4 as stated fails: for the single path \<open>README\<close> the run issues the GET of
  the index document before it fails with the no-extension error, and when that GET is
  answered with 404 the run fails with "file index document not found" instead.
\<close>

theorem run_no_extension_counterexample:
  "CHR ''.'' \<notin> set (getFileInfo_fileName ''README'')
   \<and> run lib_otp0 world0 (cmd0\<lparr>c_file := ''README''\<rparr>) []
       = (Some errNoFileExtension, [HttpGet ''http://h/file/file:idx:ABC123''])
   \<and> run lib_otp0
        (world0\<lparr>http_get := \<lambda>tr u. Inr \<lparr>StatusCode = 404, ErrorMsg = [], Payload = []\<rparr>\<rparr>)
        (cmd0\<lparr>c_file := ''README''\<rparr>) []
       = (Some (errFileIndexNotFound ''http://h/file/file:idx:ABC123''),
          [HttpGet ''http://h/file/file:idx:ABC123''])"
  by (simp add: eval_defs)

subsection \<open>The base path of the index document\<close>

text \<open>
  Claim C5. When the arguments are valid, the index document is fetched (status 200, a
  body that parses) and its base path differs from the path component of the upload
  URL, the command fails with the base path mismatch error; the GET of the index is the
  only thing it did, so no file is ever posted to the upload endpoint.
\<close>

theorem execute_basePath_mismatch:
  assumes "validateAndProcessArgs lib c = Inr c'"
    and "url_Parse lib (url c) = Inr u"
    and "http_get w tr (fileIndexURL c) = Inr resp"
    and "StatusCode resp = 200"
    and "json_Unmarshal_FileIndexDoc lib (Payload resp) = Inr doc"
    and "BasePath (FileIndex doc) \<noteq> URLPath u"
  shows "execute lib w c tr =
           (Some (errBasePathMismatch (BasePath (FileIndex doc)) (URLPath u)),
            tr @ [HttpGet (fileIndexURL c)])
         \<and> filter isPost (snd (execute lib w c tr)) = filter isPost tr"
proof -
  from validateAndProcessArgs_Inr [OF assms(1)] assms(2)
  have c': "basePath c' = URLPath u" "fileIndexURL c' = fileIndexURL c"
    by auto
  from assms(3) c' have "http_get w tr (fileIndexURL c') = Inr resp" by simp
  from getFileIndex_fetched [OF this assms(4) assms(5)] assms(6) c'
  have "getFileIndex lib w c' tr =
          (Inl (errBasePathMismatch (BasePath (FileIndex doc)) (URLPath u)),
           tr @ [HttpGet (fileIndexURL c)])"
    by simp
  then have "run lib w c' tr =
          (Some (errBasePathMismatch (BasePath (FileIndex doc)) (URLPath u)),
           tr @ [HttpGet (fileIndexURL c)])"
    by (simp add: run_def run_with_index_error)
  with assms(1) show ?thesis by (simp add: execute_def)
qed

text \<open>The upload URL \<open>http://h/other\<close> against an index with base path \<open>/content\<close>.\<close>

theorem execute_basePath_mismatch_witness:
  "validateAndProcessArgs lib_otp0 (cmd0\<lparr>url := ''http://h/other''\<rparr>)
     = Inr (cmd0\<lparr>url := ''http://h/other'', basePath := ''/other''\<rparr>)
   \<and> url_Parse lib_otp0 ''http://h/other'' = Inr \<lparr>URLPath = ''/other''\<rparr>
   \<and> http_get world0 [] ''http://h/file/file:idx:ABC123''
       = Inr \<lparr>StatusCode = 200, ErrorMsg = [], Payload = ''/content''\<rparr>
   \<and> json_Unmarshal_FileIndexDoc lib_otp0 ''/content''
       = Inr \<lparr>FileIndex = \<lparr>BasePath = ''/content'', Mappings = Map.empty\<rparr>\<rparr>
   \<and> ''/content'' \<noteq> ''/other''
   \<and> execute lib_otp0 world0 (cmd0\<lparr>url := ''http://h/other''\<rparr>) []
       = (Some (errBasePathMismatch ''/content'' ''/other''),
          [HttpGet ''http://h/file/file:idx:ABC123''])"
  using execute_basePath_mismatch [where lib = lib_otp0 and w = world0 and tr = "[]"
      and c = "cmd0\<lparr>url := ''http://h/other''\<rparr>"
      and c' = "cmd0\<lparr>url := ''http://h/other'', basePath := ''/other''\<rparr>"
      and u = "\<lparr>URLPath = ''/other''\<rparr>"
      and resp = "\<lparr>StatusCode = 200, ErrorMsg = [], Payload = ''/content''\<rparr>"
      and doc = "\<lparr>FileIndex = \<lparr>BasePath = ''/content'', Mappings = Map.empty\<rparr>\<rparr>"]
  by (simp add: validateAndProcessArgs_def lib_otp0_def world0_def cmd0_def Let_def)

text \<open>
  Claim C9. For a fetched index document, \<open>getFileIndex\<close> succeeds exactly when the
  document's base path and the command's base path are the same string; in particular
  two paths that differ only in a trailing slash give the base path mismatch error. The
  command's base path is the path of the parsed upload URL as it is, with no
  normalisation by \<open>validateAndProcessArgs\<close>.
\<close>

theorem getFileIndex_basePath_exact:
  assumes "http_get w tr (fileIndexURL c) = Inr resp"
    and "StatusCode resp = 200"
    and "json_Unmarshal_FileIndexDoc lib (Payload resp) = Inr doc"
  shows "fst (getFileIndex lib w c tr) =
           (if BasePath (FileIndex doc) = basePath c then Inr (FileIndex doc)
            else Inl (errBasePathMismatch (BasePath (FileIndex doc)) (basePath c)))
         \<and> (basePath c = BasePath (FileIndex doc) @ ''/''
              \<or> BasePath (FileIndex doc) = basePath c @ ''/''
            \<longrightarrow> fst (getFileIndex lib w c tr) =
                  Inl (errBasePathMismatch (BasePath (FileIndex doc)) (basePath c)))
         \<and> (validateAndProcessArgs lib c0 = Inr c \<and> url_Parse lib (url c0) = Inr u
            \<longrightarrow> basePath c = URLPath u)"
proof (intro conjI impI)
  show "fst (getFileIndex lib w c tr) =
           (if BasePath (FileIndex doc) = basePath c then Inr (FileIndex doc)
            else Inl (errBasePathMismatch (BasePath (FileIndex doc)) (basePath c)))"
    by (simp add: getFileIndex_fetched [OF assms])
next
  assume "basePath c = BasePath (FileIndex doc) @ ''/''
    \<or> BasePath (FileIndex doc) = basePath c @ ''/''"
  then have "BasePath (FileIndex doc) \<noteq> basePath c" by auto
  then show "fst (getFileIndex lib w c tr) =
      Inl (errBasePathMismatch (BasePath (FileIndex doc)) (basePath c))"
    by (simp add: getFileIndex_fetched [OF assms])
next
  assume "validateAndProcessArgs lib c0 = Inr c \<and> url_Parse lib (url c0) = Inr u"
  then show "basePath c = URLPath u"
    using validateAndProcessArgs_Inr [of lib c0 c] by auto
qed

text \<open>The upload URL \<open>http://h/content/\<close> against an index with base path \<open>/content\<close>.\<close>

theorem getFileIndex_basePath_exact_witness:
  "http_get world0 [] ''http://h/file/file:idx:ABC123''
       = Inr \<lparr>StatusCode = 200, ErrorMsg = [], Payload = ''/content''\<rparr>
   \<and> json_Unmarshal_FileIndexDoc lib_otp0 ''/content''
       = Inr \<lparr>FileIndex = \<lparr>BasePath = ''/content'', Mappings = Map.empty\<rparr>\<rparr>
   \<and> validateAndProcessArgs lib_otp0 (cmd0\<lparr>url := ''http://h/content/''\<rparr>)
       = Inr (cmd0\<lparr>url := ''http://h/content/'', basePath := ''/content/''\<rparr>)
   \<and> url_Parse lib_otp0 ''http://h/content/'' = Inr \<lparr>URLPath = ''/content/''\<rparr>
   \<and> fst (getFileIndex lib_otp0 world0
            (cmd0\<lparr>url := ''http://h/content/'', basePath := ''/content/''\<rparr>) [])
       = Inl (errBasePathMismatch ''/content'' ''/content/'')"
  using getFileIndex_basePath_exact [where lib = lib_otp0 and w = world0 and tr = "[]"
      and c = "cmd0\<lparr>url := ''http://h/content/'', basePath := ''/content/''\<rparr>"
      and c0 = "cmd0\<lparr>url := ''http://h/content/''\<rparr>"
      and u = "\<lparr>URLPath = ''/content/''\<rparr>"
      and resp = "\<lparr>StatusCode = 200, ErrorMsg = [], Payload = ''/content''\<rparr>"
      and doc = "\<lparr>FileIndex = \<lparr>BasePath = ''/content'', Mappings = Map.empty\<rparr>\<rparr>"]
  by (simp add: validateAndProcessArgs_def lib_otp0_def world0_def cmd0_def Let_def)

subsection \<open>The confirmation\<close>

lemma confirmUpload_written:
  "write_out w tr (confirmUpload_prompt lib u fs @ [CHR 0x0A]) = None \<Longrightarrow>
     confirmUpload lib w u fs tr =
       (Inr (ToLower (unicodeLower lib)
               (read_in w (tr @ [Output (confirmUpload_prompt lib u fs @ [CHR 0x0A])])) = ''y''),
        tr @ [Output (confirmUpload_prompt lib u fs @ [CHR 0x0A]), PromptRead])"
  by (simp add: confirmUpload_def confirmUpload_prompt_def Fprintln_def Fprint_def Prompt_def)

text \<open>
  Claim C7, as amended. When the prompt is not suppressed, the index was fetched, the
  files were loaded, the prompt was written and the lower-cased answer is not \<open>y\<close>,
  then, in both copies (\<open>upd\<close> is the copy's \<open>updateIndexFile\<close>), \<open>run\<close> issues no
  POST, so no file is uploaded and no index update is submitted; it writes the notice
  "Operation aborted" and returns what that write returns: no error when the notice is
  written, and the error of the output stream otherwise. Declining is not an error of its
  own.
\<close>

theorem run_declined:
  assumes "\<not> noPrompt c"
    and "getFileIndex lib w c tr = (Inr idx, t_idx)"
    and "getFiles lib w c t_idx = (Inr f, t_files)"
    and "write_out w t_files (confirmUpload_prompt lib (url c) f @ [CHR 0x0A]) = None"
    and "ToLower (unicodeLower lib)
           (read_in w (t_files @ [Output (confirmUpload_prompt lib (url c) f @ [CHR 0x0A])]))
         \<noteq> ''y''"
    and "t_prompt = t_files @ [Output (confirmUpload_prompt lib (url c) f @ [CHR 0x0A]), PromptRead]"
  shows "run_with upd lib w c tr =
           (write_out w t_prompt (msgAborted @ [CHR 0x0A]),
            t_prompt @ [Output (msgAborted @ [CHR 0x0A])])
         \<and> filter isPost (snd (run_with upd lib w c tr)) = filter isPost tr
         \<and> (write_out w t_prompt (msgAborted @ [CHR 0x0A]) = None
            \<longrightarrow> fst (run_with upd lib w c tr) = None)
         \<and> (write_out w t_prompt (msgAborted @ [CHR 0x0A]) = Some e
            \<longrightarrow> fst (run_with upd lib w c tr) = Some e)"
proof -
  have cu: "confirmUpload lib w (url c) f t_files = (Inr False, t_prompt)"
    using confirmUpload_written [OF assms(4)] assms(5) assms(6) by simp
  have r: "run_with upd lib w c tr =
      (write_out w t_prompt (msgAborted @ [CHR 0x0A]),
       t_prompt @ [Output (msgAborted @ [CHR 0x0A])])"
    using run_with_prompted [OF assms(1-3) cu, of upd] by (simp add: Fprintln_def Fprint_def)
  from getFileIndex_trace [of lib w c tr] assms(2)
  have t1: "t_idx = tr @ [HttpGet (fileIndexURL c)]" by simp
  from getFiles_loop_network [of lib w "Split (c_file c) CHR '';''" "[]" t_idx] assms(3)
  have t2: "filter isNetwork t_files = filter isNetwork t_idx" by (simp add: getFiles_def)
  have "filter isNetwork (t_prompt @ [Output (msgAborted @ [CHR 0x0A])])
      = filter isNetwork tr @ [HttpGet (fileIndexURL c)]"
    using t1 t2 assms(6) by simp
  from no_post_of_network [OF this] r show ?thesis by simp
qed

text \<open>The first scenario with the answer \<open>n\<close>, in both copies.\<close>

theorem run_declined_witness:
  "\<not> noPrompt cmd0
   \<and> getFileIndex lib_otp0 world0 cmd0 []
       = (Inr \<lparr>BasePath = ''/content'', Mappings = Map.empty\<rparr>,
          [HttpGet ''http://h/file/file:idx:ABC123''])
   \<and> getFiles lib_otp0 world0 cmd0 [HttpGet ''http://h/file/file:idx:ABC123'']
       = (Inr [file_a], [HttpGet ''http://h/file/file:idx:ABC123'', FileRead ''a.json''])
   \<and> write_out world0 [HttpGet ''http://h/file/file:idx:ABC123'', FileRead ''a.json'']
        (confirmUpload_prompt lib_otp0 (url cmd0) [file_a] @ [CHR 0x0A]) = None
   \<and> read_in world0
        [HttpGet ''http://h/file/file:idx:ABC123'', FileRead ''a.json'',
         Output (confirmUpload_prompt lib_otp0 (url cmd0) [file_a] @ [CHR 0x0A])] = ''n''
   \<and> ToLower (unicodeLower lib_otp0) ''n'' \<noteq> ''y''
   \<and> run lib_otp0 world0 cmd0 []
       = (None,
          [HttpGet ''http://h/file/file:idx:ABC123'', FileRead ''a.json'',
           Output (confirmUpload_prompt lib_otp0 (url cmd0) [file_a] @ [CHR 0x0A]),
           PromptRead, Output (msgAborted @ [CHR 0x0A])])
   \<and> filter isPost (snd (run lib_otp0 world0 cmd0 [])) = []
   \<and> run_sig lib_sig0 world0 cmd_sig0 []
       = (None,
          [HttpGet ''http://h/file/file:idx:ABC123'', FileRead ''a.json'',
           Output (confirmUpload_prompt lib_sig0 (url cmd_sig0) [file_a] @ [CHR 0x0A]),
           PromptRead, Output (msgAborted @ [CHR 0x0A])])"
  using run_declined [where lib = lib_otp0 and w = world0 and c = cmd0 and tr = "[]"
      and upd = "updateIndexFile lib_otp0 world0 cmd0"
      and idx = "\<lparr>BasePath = ''/content'', Mappings = Map.empty\<rparr>"
      and t_idx = "[HttpGet ''http://h/file/file:idx:ABC123'']"
      and f = "[file_a]"
      and t_files = "[HttpGet ''http://h/file/file:idx:ABC123'', FileRead ''a.json'']"
      and t_prompt = "[HttpGet ''http://h/file/file:idx:ABC123'', FileRead ''a.json'',
           Output (confirmUpload_prompt lib_otp0 (url cmd0) [file_a] @ [CHR 0x0A]), PromptRead]"]
    run_declined [where lib = lib_sig0 and w = world0 and c = cmd_sig0 and tr = "[]"
      and upd = "updateIndexFile_sig lib_sig0 world0 cmd_sig0"
      and idx = "\<lparr>BasePath = ''/content'', Mappings = Map.empty\<rparr>"
      and t_idx = "[HttpGet ''http://h/file/file:idx:ABC123'']"
      and f = "[file_a]"
      and t_files = "[HttpGet ''http://h/file/file:idx:ABC123'', FileRead ''a.json'']"
      and t_prompt = "[HttpGet ''http://h/file/file:idx:ABC123'', FileRead ''a.json'',
           Output (confirmUpload_prompt lib_sig0 (url cmd_sig0) [file_a] @ [CHR 0x0A]), PromptRead]"]
  by (simp add: eval_defs file_a_def ToLower_def isASCII_def lowerByte_y)

text \<open>
  Claim C7 as stated fails: \<open>run\<close> returns the result of \<open>Fprintln\<close>, so when the
  prompt is shown, the user answers \<open>n\<close> and the output stream refuses the abort notice,
  both copies return an error. Still nothing is posted.
\<close>

theorem run_declined_counterexample:
  "\<not> noPrompt cmd0
   \<and> read_in world_closed
        [HttpGet ''http://h/file/file:idx:ABC123'', FileRead ''a.json'',
         Output (confirmUpload_prompt lib_otp0 (url cmd0) [file_a] @ [CHR 0x0A])] = ''n''
   \<and> run lib_otp0 world_closed cmd0 []
       = (Some (External ''closed''),
          [HttpGet ''http://h/file/file:idx:ABC123'', FileRead ''a.json'',
           Output (confirmUpload_prompt lib_otp0 (url cmd0) [file_a] @ [CHR 0x0A]),
           PromptRead, Output (msgAborted @ [CHR 0x0A])])
   \<and> run_sig lib_sig0 world_closed cmd_sig0 []
       = (Some (External ''closed''),
          [HttpGet ''http://h/file/file:idx:ABC123'', FileRead ''a.json'',
           Output (confirmUpload_prompt lib_sig0 (url cmd_sig0) [file_a] @ [CHR 0x0A]),
           PromptRead, Output (msgAborted @ [CHR 0x0A])])"
  by (simp add: eval_defs world_closed_def confirmUpload_prompt_def file_a_def ToLower_def
      isASCII_def lowerByte_y msgAborted_def)

text \<open>
  Claim C10. Provided the Unicode lower-casing of a string with a non-ASCII byte is
  never the one-byte string \<open>y\<close> (true of Go's tables: no other character lowers to
  \<open>y\<close>): whenever the prompt is written, \<open>confirmUpload\<close> reads the answer and
  returns true exactly when the answer is \<open>y\<close> or \<open>Y\<close>. In a run that reaches the
  prompt, \<open>run\<close> goes on to the uploads on these two answers, and on every other
  answer it writes the abort notice and returns.
\<close>

theorem confirmUpload_affirmative:
  assumes "\<forall>s. \<not> isASCII s \<longrightarrow> unicodeLower lib s \<noteq> ''y''"
  shows "(write_out w t (confirmUpload_prompt lib u fs @ [CHR 0x0A]) = None
          \<longrightarrow> confirmUpload lib w u fs t =
                (Inr (read_in w (t @ [Output (confirmUpload_prompt lib u fs @ [CHR 0x0A])]) = ''y''
                      \<or> read_in w (t @ [Output (confirmUpload_prompt lib u fs @ [CHR 0x0A])]) = ''Y''),
                 t @ [Output (confirmUpload_prompt lib u fs @ [CHR 0x0A]), PromptRead]))
         \<and> (\<not> noPrompt c
              \<and> getFileIndex lib w c tr = (Inr idx, t_idx)
              \<and> getFiles lib w c t_idx = (Inr f, t_files)
              \<and> write_out w t_files (confirmUpload_prompt lib (url c) f @ [CHR 0x0A]) = None
              \<and> answer = read_in w
                    (t_files @ [Output (confirmUpload_prompt lib (url c) f @ [CHR 0x0A])])
              \<and> t_prompt =
                    t_files @ [Output (confirmUpload_prompt lib (url c) f @ [CHR 0x0A]), PromptRead]
          \<longrightarrow> run_with upd lib w c tr =
                (if answer = ''y'' \<or> answer = ''Y''
                 then run_from_uploads upd lib w c idx f t_prompt
                 else Fprintln w msgAborted t_prompt))"
proof -
  from assms have ul: "\<And>s. \<not> isASCII s \<Longrightarrow> unicodeLower lib s \<noteq> ''y''" by simp
  have cu: "confirmUpload lib w u' fs' t' =
      (Inr (read_in w (t' @ [Output (confirmUpload_prompt lib u' fs' @ [CHR 0x0A])]) = ''y''
            \<or> read_in w (t' @ [Output (confirmUpload_prompt lib u' fs' @ [CHR 0x0A])]) = ''Y''),
       t' @ [Output (confirmUpload_prompt lib u' fs' @ [CHR 0x0A]), PromptRead])"
    if "write_out w t' (confirmUpload_prompt lib u' fs' @ [CHR 0x0A]) = None" for u' fs' t'
    using confirmUpload_written [OF that] ToLower_y [of "unicodeLower lib", OF ul] by simp
  show ?thesis
  proof (intro conjI impI)
    assume "write_out w t (confirmUpload_prompt lib u fs @ [CHR 0x0A]) = None"
    then show "confirmUpload lib w u fs t =
                (Inr (read_in w (t @ [Output (confirmUpload_prompt lib u fs @ [CHR 0x0A])]) = ''y''
                      \<or> read_in w (t @ [Output (confirmUpload_prompt lib u fs @ [CHR 0x0A])]) = ''Y''),
                 t @ [Output (confirmUpload_prompt lib u fs @ [CHR 0x0A]), PromptRead])"
      by (rule cu)
  next
    assume a: "\<not> noPrompt c
              \<and> getFileIndex lib w c tr = (Inr idx, t_idx)
              \<and> getFiles lib w c t_idx = (Inr f, t_files)
              \<and> write_out w t_files (confirmUpload_prompt lib (url c) f @ [CHR 0x0A]) = None
              \<and> answer = read_in w
                    (t_files @ [Output (confirmUpload_prompt lib (url c) f @ [CHR 0x0A])])
              \<and> t_prompt =
                    t_files @ [Output (confirmUpload_prompt lib (url c) f @ [CHR 0x0A]), PromptRead]"
    then have "confirmUpload lib w (url c) f t_files =
        (Inr (answer = ''y'' \<or> answer = ''Y''), t_prompt)"
      using cu [of t_files "url c" f] by simp
    with a run_with_prompted [of c lib w tr idx t_idx f t_files "answer = ''y'' \<or> answer = ''Y''"
        t_prompt upd]
    show "run_with upd lib w c tr =
                (if answer = ''y'' \<or> answer = ''Y''
                 then run_from_uploads upd lib w c idx f t_prompt
                 else Fprintln w msgAborted t_prompt)"
      by simp
  qed
qed

lemma unicodeLower_lib_otp0: "\<forall>s. \<not> isASCII s \<longrightarrow> unicodeLower lib_otp0 s \<noteq> ''y''"
  using isASCII_y by (auto simp: lib_otp0_def)


text \<open>
  The answers \<open>y\<close> and \<open>Y\<close> are accepted and the run uploads the file and updates
  the index; \<open>yes\<close> and \<open>n\<close> are not accepted, and on \<open>yes\<close> the run aborts.
\<close>

theorem confirmUpload_affirmative_witness:
  "\<not> noPrompt cmd0
   \<and> write_out (world_answer ''y'') [HttpGet ''http://h/file/file:idx:ABC123'', FileRead ''a.json'']
        (confirmUpload_prompt lib_otp0 (url cmd0) [file_a] @ [CHR 0x0A]) = None
   \<and> fst (confirmUpload lib_otp0 (world_answer ''y'') (url cmd0) [file_a]
            [HttpGet ''http://h/file/file:idx:ABC123'', FileRead ''a.json'']) = Inr True
   \<and> fst (confirmUpload lib_otp0 (world_answer ''Y'') (url cmd0) [file_a]
            [HttpGet ''http://h/file/file:idx:ABC123'', FileRead ''a.json'']) = Inr True
   \<and> fst (confirmUpload lib_otp0 (world_answer ''yes'') (url cmd0) [file_a]
            [HttpGet ''http://h/file/file:idx:ABC123'', FileRead ''a.json'']) = Inr False
   \<and> fst (confirmUpload lib_otp0 (world_answer ''n'') (url cmd0) [file_a]
            [HttpGet ''http://h/file/file:idx:ABC123'', FileRead ''a.json'']) = Inr False
   \<and> run lib_otp0 (world_answer ''y'') cmd0 []
       = (None,
          [HttpGet ''http://h/file/file:idx:ABC123'', FileRead ''a.json'',
           Output (confirmUpload_prompt lib_otp0 (url cmd0) [file_a] @ [CHR 0x0A]), PromptRead,
           HttpPost ''http://h/content'' ''application/json|{}'',
           HttpPost ''http://h/file'' ''ABC123|add /fileIndex/mappings/a.json X;'',
           Output ''a.json ''])
   \<and> run lib_otp0 (world_answer ''Y'') cmd0 [] = run lib_otp0 (world_answer ''y'') cmd0 []
   \<and> run lib_otp0 (world_answer ''yes'') cmd0 []
       = (None,
          [HttpGet ''http://h/file/file:idx:ABC123'', FileRead ''a.json'',
           Output (confirmUpload_prompt lib_otp0 (url cmd0) [file_a] @ [CHR 0x0A]), PromptRead,
           Output (msgAborted @ [CHR 0x0A])])"
  using confirmUpload_affirmative [where lib = lib_otp0 and w = "world_answer ''y''"
      and c = cmd0 and tr = "[]" and u = "url cmd0" and fs = "[file_a]"
      and t = "[HttpGet ''http://h/file/file:idx:ABC123'', FileRead ''a.json'']"
      and upd = "updateIndexFile lib_otp0 (world_answer ''y'') cmd0"
      and idx = "\<lparr>BasePath = ''/content'', Mappings = Map.empty\<rparr>"
      and t_idx = "[HttpGet ''http://h/file/file:idx:ABC123'']"
      and f = "[file_a]"
      and t_files = "[HttpGet ''http://h/file/file:idx:ABC123'', FileRead ''a.json'']"
      and answer = "''y''"
      and t_prompt = "[HttpGet ''http://h/file/file:idx:ABC123'', FileRead ''a.json'',
           Output (confirmUpload_prompt lib_otp0 (url cmd0) [file_a] @ [CHR 0x0A]), PromptRead]",
      OF unicodeLower_lib_otp0]
    confirmUpload_affirmative [where lib = lib_otp0 and w = "world_answer ''Y''"
      and c = cmd0 and tr = "[]" and u = "url cmd0" and fs = "[file_a]"
      and t = "[HttpGet ''http://h/file/file:idx:ABC123'', FileRead ''a.json'']"
      and upd = "updateIndexFile lib_otp0 (world_answer ''Y'') cmd0"
      and idx = "\<lparr>BasePath = ''/content'', Mappings = Map.empty\<rparr>"
      and t_idx = "[HttpGet ''http://h/file/file:idx:ABC123'']"
      and f = "[file_a]"
      and t_files = "[HttpGet ''http://h/file/file:idx:ABC123'', FileRead ''a.json'']"
      and answer = "''Y''"
      and t_prompt = "[HttpGet ''http://h/file/file:idx:ABC123'', FileRead ''a.json'',
           Output (confirmUpload_prompt lib_otp0 (url cmd0) [file_a] @ [CHR 0x0A]), PromptRead]",
      OF unicodeLower_lib_otp0]
    confirmUpload_affirmative [where lib = lib_otp0 and w = "world_answer ''yes''"
      and c = cmd0 and tr = "[]" and u = "url cmd0" and fs = "[file_a]"
      and t = "[HttpGet ''http://h/file/file:idx:ABC123'', FileRead ''a.json'']"
      and upd = "updateIndexFile lib_otp0 (world_answer ''yes'') cmd0"
      and idx = "\<lparr>BasePath = ''/content'', Mappings = Map.empty\<rparr>"
      and t_idx = "[HttpGet ''http://h/file/file:idx:ABC123'']"
      and f = "[file_a]"
      and t_files = "[HttpGet ''http://h/file/file:idx:ABC123'', FileRead ''a.json'']"
      and answer = "''yes''"
      and t_prompt = "[HttpGet ''http://h/file/file:idx:ABC123'', FileRead ''a.json'',
           Output (confirmUpload_prompt lib_otp0 (url cmd0) [file_a] @ [CHR 0x0A]), PromptRead]",
      OF unicodeLower_lib_otp0]
    confirmUpload_affirmative [where lib = lib_otp0 and w = "world_answer ''n''"
      and u = "url cmd0" and fs = "[file_a]"
      and t = "[HttpGet ''http://h/file/file:idx:ABC123'', FileRead ''a.json'']",
      OF unicodeLower_lib_otp0]
  by (simp add: eval_defs world_answer_def file_a_def ToLower_def isASCII_def lowerByte_y
      lowerByte_def char_of_121 updateIndexFile_def getUpdatePatch_def getUpdateRequest_def
      getUniqueSuffix_def jsonPatchBasePath_def jsonPatchAddOp_def jsonPatchReplaceOp_def)

subsection \<open>The patch\<close>

text \<open>
  Claim C1. For every file index and every list of files, the loop of
  \<open>getUpdatePatch\<close> builds exactly one entry for each file, in the order of the files:
  the path is \<open>/fileIndex/mappings/\<close> followed by the file name, the value is the
  file's ID, and the operation is \<open>replace\<close> when the name is a key of the mappings
  and \<open>add\<close> otherwise. The newer copy returns the JSON encoding of this list, the
  older copy what \<open>jsonpatch.DecodePatch\<close> makes of that encoding.
\<close>

theorem getUpdatePatch_entries:
  "getUpdatePatch_loop fileIdx fs [] =
     map (\<lambda>f. \<lparr>Op = (if Name f \<in> dom (Mappings fileIdx) then ''replace'' else ''add''),
                Path = ''/fileIndex/mappings/'' @ Name f, Value = ID f\<rparr>) fs
   \<and> getUpdatePatch_sig lib' fileIdx fs =
       json_Marshal_jsonPatch lib' (getUpdatePatch_loop fileIdx fs [])
   \<and> getUpdatePatch lib fileIdx fs =
       (case json_Marshal_jsonPatch lib (getUpdatePatch_loop fileIdx fs []) of
          Inl err \<Rightarrow> Inl err
        | Inr patchBytes \<Rightarrow> jsonpatch_DecodePatch lib patchBytes)"
  by (simp add: getUpdatePatch_loop_map getUpdatePatch_sig_def getUpdatePatch_def
      split: sum.splits)

text \<open>
  The scenarios of the specification: \<open>a.json\<close> is added to an empty index and
  replaced in an index that has it; a second file follows the first.
\<close>

theorem getUpdatePatch_entries_witness:
  "getUpdatePatch_loop \<lparr>BasePath = ''/content'', Mappings = Map.empty\<rparr>
     [\<lparr>Name = ''a.json'', Content = ''{}'', ContentType = ''application/json'', ID = ''X''\<rparr>] []
     = [\<lparr>Op = ''add'', Path = ''/fileIndex/mappings/a.json'', Value = ''X''\<rparr>]
   \<and> getUpdatePatch_loop \<lparr>BasePath = ''/content'', Mappings = [''a.json'' \<mapsto> ''OLD'']\<rparr>
     [\<lparr>Name = ''a.json'', Content = ''{}'', ContentType = ''application/json'', ID = ''X''\<rparr>,
      \<lparr>Name = ''b.json'', Content = ''{}'', ContentType = ''application/json'', ID = ''Z''\<rparr>] []
     = [\<lparr>Op = ''replace'', Path = ''/fileIndex/mappings/a.json'', Value = ''X''\<rparr>,
        \<lparr>Op = ''add'', Path = ''/fileIndex/mappings/b.json'', Value = ''Z''\<rparr>]"
  using getUpdatePatch_entries [where fileIdx = "\<lparr>BasePath = ''/content'', Mappings = Map.empty\<rparr>"
      and fs = "[\<lparr>Name = ''a.json'', Content = ''{}'', ContentType = ''application/json'', ID = ''X''\<rparr>]"
      and lib = lib_otp0 and lib' = lib_sig0]
    getUpdatePatch_entries [where fileIdx = "\<lparr>BasePath = ''/content'', Mappings = [''a.json'' \<mapsto> ''OLD'']\<rparr>"
      and fs = "[\<lparr>Name = ''a.json'', Content = ''{}'', ContentType = ''application/json'', ID = ''X''\<rparr>,
      \<lparr>Name = ''b.json'', Content = ''{}'', ContentType = ''application/json'', ID = ''Z''\<rparr>]"
      and lib = lib_otp0 and lib' = lib_sig0]
  by simp

text \<open>
  Claim C3, as amended. Both copies decode the JSON Patch into a typed patch object
  before the update request is built. The older copy does it inside \<open>getUpdatePatch\<close>
  with \<open>jsonpatch.DecodePatch\<close>; the newer copy's \<open>getUpdatePatch\<close> returns the raw
  JSON string unchanged, and its \<open>getUpdateRequest\<close> decodes it with
  \<open>patch.NewJSONPatch\<close>. In either copy a decoding error is returned by
  \<open>updateIndexFile\<close> with nothing posted.
\<close>

theorem patch_decoding:
  "getUpdatePatch lib fileIdx fs =
       (case json_Marshal_jsonPatch lib (getUpdatePatch_loop fileIdx fs []) of
          Inl err \<Rightarrow> Inl err
        | Inr patchBytes \<Rightarrow> jsonpatch_DecodePatch lib patchBytes)
   \<and> (json_Marshal_jsonPatch lib (getUpdatePatch_loop fileIdx fs []) = Inr raw
        \<and> jsonpatch_DecodePatch lib raw = Inl err
      \<longrightarrow> updateIndexFile lib w c fileIdx fs tr = (Some err, tr))
   \<and> getUpdatePatch_sig lib' fileIdx fs =
       json_Marshal_jsonPatch lib' (getUpdatePatch_loop fileIdx fs [])
   \<and> (getUpdatePatch_sig lib' fileIdx fs = Inr raw'
        \<and> getUniqueSuffix (fileIndexURL c') = Inr suffix
        \<and> patch_NewJSONPatch lib' raw' = Inl err'
      \<longrightarrow> updateIndexFile_sig lib' w c' fileIdx fs tr = (Some err', tr))"
  by (simp add: getUpdatePatch_sig_def getUpdatePatch_def updateIndexFile_def
      updateIndexFile_sig_def getUpdateRequest_sig_def split: sum.splits)

text \<open>Decoders that reject the patch of the first scenario, in both copies.\<close>

theorem patch_decoding_witness:
  "json_Marshal_jsonPatch lib_otp0
      (getUpdatePatch_loop \<lparr>BasePath = ''/content'', Mappings = Map.empty\<rparr>
        [\<lparr>Name = ''a.json'', Content = ''{}'', ContentType = ''application/json'', ID = ''X''\<rparr>] [])
     = Inr ''add /fileIndex/mappings/a.json X;''
   \<and> updateIndexFile (lib_otp0\<lparr>jsonpatch_DecodePatch := \<lambda>b. Inl (External ''invalid patch'')\<rparr>)
       world0 cmd0 \<lparr>BasePath = ''/content'', Mappings = Map.empty\<rparr>
       [\<lparr>Name = ''a.json'', Content = ''{}'', ContentType = ''application/json'', ID = ''X''\<rparr>] []
     = (Some (External ''invalid patch''), [])
   \<and> getUpdatePatch_sig (lib_sig0\<lparr>patch_NewJSONPatch := \<lambda>b. Inl (External ''invalid patch'')\<rparr>)
       \<lparr>BasePath = ''/content'', Mappings = Map.empty\<rparr>
       [\<lparr>Name = ''a.json'', Content = ''{}'', ContentType = ''application/json'', ID = ''X''\<rparr>]
     = Inr ''add /fileIndex/mappings/a.json X;''
   \<and> getUniqueSuffix (fileIndexURL cmd_sig0) = Inr ''ABC123''
   \<and> updateIndexFile_sig (lib_sig0\<lparr>patch_NewJSONPatch := \<lambda>b. Inl (External ''invalid patch'')\<rparr>)
       world0 cmd_sig0 \<lparr>BasePath = ''/content'', Mappings = Map.empty\<rparr>
       [\<lparr>Name = ''a.json'', Content = ''{}'', ContentType = ''application/json'', ID = ''X''\<rparr>] []
     = (Some (External ''invalid patch''), [])"
  using patch_decoding [where lib = "lib_otp0\<lparr>jsonpatch_DecodePatch := \<lambda>b. Inl (External ''invalid patch'')\<rparr>"
      and lib' = "lib_sig0\<lparr>patch_NewJSONPatch := \<lambda>b. Inl (External ''invalid patch'')\<rparr>"
      and fileIdx = "\<lparr>BasePath = ''/content'', Mappings = Map.empty\<rparr>"
      and fs = "[\<lparr>Name = ''a.json'', Content = ''{}'', ContentType = ''application/json'', ID = ''X''\<rparr>]"
      and raw = "''add /fileIndex/mappings/a.json X;''" and raw' = "''add /fileIndex/mappings/a.json X;''"
      and err = "External ''invalid patch''" and err' = "External ''invalid patch''"
      and w = world0 and c = cmd0 and c' = cmd_sig0 and tr = "[]" and suffix = "''ABC123''"]
  by (simp add: lib_otp0_def lib_sig0_def cmd_sig0_def getUpdatePatch_sig_def getUniqueSuffix_def
      jsonPatchBasePath_def jsonPatchAddOp_def Let_def)

text \<open>
  Claim C3 as stated fails: the older copy does not pass the raw JSON string through.
  With a \<open>jsonpatch.DecodePatch\<close> that rejects its input, the older
  \<open>getUpdatePatch\<close> returns the decoding error although the encoding succeeded, while
  the newer \<open>getUpdatePatch\<close> returns the raw string whatever its decoder would say.
\<close>

theorem patch_decoding_counterexample:
  "json_Marshal_jsonPatch (lib_otp0\<lparr>jsonpatch_DecodePatch := \<lambda>b. Inl (External ''invalid patch'')\<rparr>)
      (getUpdatePatch_loop \<lparr>BasePath = ''/content'', Mappings = Map.empty\<rparr>
        [\<lparr>Name = ''a.json'', Content = ''{}'', ContentType = ''application/json'', ID = ''X''\<rparr>] [])
     = Inr ''add /fileIndex/mappings/a.json X;''
   \<and> getUpdatePatch (lib_otp0\<lparr>jsonpatch_DecodePatch := \<lambda>b. Inl (External ''invalid patch'')\<rparr>)
       \<lparr>BasePath = ''/content'', Mappings = Map.empty\<rparr>
       [\<lparr>Name = ''a.json'', Content = ''{}'', ContentType = ''application/json'', ID = ''X''\<rparr>]
     = Inl (External ''invalid patch'')
   \<and> getUpdatePatch_sig (lib_sig0\<lparr>patch_NewJSONPatch := \<lambda>b. Inl (External ''invalid patch'')\<rparr>)
       \<lparr>BasePath = ''/content'', Mappings = Map.empty\<rparr>
       [\<lparr>Name = ''a.json'', Content = ''{}'', ContentType = ''application/json'', ID = ''X''\<rparr>]
     = Inr ''add /fileIndex/mappings/a.json X;''"
  by (simp add: lib_otp0_def lib_sig0_def getUpdatePatch_def getUpdatePatch_sig_def
      jsonPatchBasePath_def jsonPatchAddOp_def Let_def)

subsection \<open>The signing key of the newer copy\<close>

text \<open>
  Claim C8. \<open>validateSigningKey\<close> fails when neither the signing key nor the key file
  is given and when both are given, and passes exactly when one of them is given. When
  it fails, the validation of the arguments fails and the command returns the error
  with an unchanged trace: nothing was read, written or sent. A validation that passes
  had exactly one of the two.
\<close>

theorem validateSigningKey_exactly_one:
  "(fileIndexSigningKeyFile c = [] \<and> fileIndexSigningKeyString c = []
      \<longrightarrow> validateSigningKey c = Some errSigningKeyOrFileRequired)
   \<and> (fileIndexSigningKeyFile c \<noteq> [] \<and> fileIndexSigningKeyString c \<noteq> []
      \<longrightarrow> validateSigningKey c = Some errOnlyOneOfSigningKeyOrFileRequired)
   \<and> (validateSigningKey c = None) =
       ((fileIndexSigningKeyFile c = []) \<noteq> (fileIndexSigningKeyString c = []))
   \<and> (validateSigningKey c \<noteq> None
      \<longrightarrow> (\<exists>e. validateAndProcessArgs_sig lib c = Inl e \<and> execute_sig lib w c tr = (Some e, tr)))
   \<and> (validateAndProcessArgs_sig lib c = Inr c' \<longrightarrow> validateSigningKey c = None)"
proof (intro conjI impI)
  assume "validateSigningKey c \<noteq> None"
  then obtain e where "validateAndProcessArgs_sig lib c = Inl e"
    using validateAndProcessArgs_sig_Inr [of lib c]
    by (cases "validateAndProcessArgs_sig lib c") auto
  then show "\<exists>e. validateAndProcessArgs_sig lib c = Inl e \<and> execute_sig lib w c tr = (Some e, tr)"
    by (simp add: execute_sig_def)
next
  assume "validateAndProcessArgs_sig lib c = Inr c'"
  then show "validateSigningKey c = None"
    using validateAndProcessArgs_sig_Inr [of lib c c'] by auto
qed (auto simp: validateSigningKey_def)

text \<open>No key, both keys, and the inline key alone.\<close>

theorem validateSigningKey_exactly_one_witness:
  "execute_sig lib_sig0 world0 (cmd_sig0\<lparr>fileIndexSigningKeyString := []\<rparr>) []
     = (Some errSigningKeyOrFileRequired, [])
   \<and> execute_sig lib_sig0 world0 (cmd_sig0\<lparr>fileIndexSigningKeyFile := ''k.pem''\<rparr>) []
     = (Some errOnlyOneOfSigningKeyOrFileRequired, [])
   \<and> validateAndProcessArgs_sig lib_sig0 cmd_sig0 = Inr cmd_sig0
   \<and> validateSigningKey cmd_sig0 = None"
  using validateSigningKey_exactly_one [where c = "cmd_sig0\<lparr>fileIndexSigningKeyString := []\<rparr>"
      and lib = lib_sig0 and w = world0 and tr = "[]"]
    validateSigningKey_exactly_one [where c = "cmd_sig0\<lparr>fileIndexSigningKeyFile := ''k.pem''\<rparr>"
      and lib = lib_sig0 and w = world0 and tr = "[]"]
    validateSigningKey_exactly_one [where c = cmd_sig0 and c' = cmd_sig0
      and lib = lib_sig0 and w = world0 and tr = "[]"]
  by (simp add: execute_sig_def validateAndProcessArgs_sig_def validateSigningKey_def
      lib_sig0_def cmd_sig0_def Let_def)

subsection \<open>The uploads\<close>

lemma upload_trace:
  "upload lib w u ct b tr = (r, tr') \<Longrightarrow>
     (tr' = tr \<and> (\<exists>e. r = Inl e))
     \<or> (\<exists>req. json_Marshal_uploadFile lib \<lparr>uf_ContentType = ct, uf_Content = b\<rparr> = Inr req
           \<and> tr' = tr @ [HttpPost u req])"
proof (cases "json_Marshal_uploadFile lib \<lparr>uf_ContentType = ct, uf_Content = b\<rparr>")
  case (Inl e)
  assume "upload lib w u ct b tr = (r, tr')"
  with Inl have "r = Inl e \<and> tr' = tr" by (simp add: upload_def)
  then show ?thesis by blast
next
  case (Inr req)
  assume "upload lib w u ct b tr = (r, tr')"
  with Inr show ?thesis
    by (auto simp: upload_def client_Post_def split: sum.splits if_splits)
qed

lemma run_uploads_append:
  "run_uploads lib w u (pre @ rest) d tr =
     (case run_uploads lib w u pre d tr of
        (Inl e, t) \<Rightarrow> (Inl e, t)
      | (Inr d', t) \<Rightarrow> run_uploads lib w u rest d' t)"
proof (induction pre arbitrary: d tr)
  case Nil
  show ?case by simp
next
  case (Cons x pre)
  show ?case
    by (cases "upload lib w u (ContentType x) (Content x) tr")
       (auto simp: Cons.IH split: sum.splits)
qed

lemma run_uploads_posts:
  "run_uploads lib w u fs d tr = (r, tr') \<Longrightarrow>
     \<exists>n bodies. n \<le> length fs \<and> tr' = tr @ map (HttpPost u) bodies
       \<and> map (\<lambda>f. json_Marshal_uploadFile lib
                  \<lparr>uf_ContentType = ContentType f, uf_Content = Content f\<rparr>) (take n fs)
           = map Inr bodies
       \<and> (\<forall>fs'. r = Inr fs' \<longrightarrow> n = length fs
             \<and> (\<exists>ids. length ids = length fs \<and> fs' = d @ map2 (\<lambda>f i. f\<lparr>ID := i\<rparr>) fs ids))"
proof (induction fs arbitrary: d tr)
  case Nil
  then show ?case by auto
next
  case (Cons x fs)
  obtain r1 t1 where u: "upload lib w u (ContentType x) (Content x) tr = (r1, t1)"
    by (cases "upload lib w u (ContentType x) (Content x) tr")
  show ?case
  proof (cases r1)
    case (Inl e)
    with u Cons.prems have res: "r = Inl e" "tr' = t1" by auto
    from upload_trace [OF u] show ?thesis
    proof
      assume "t1 = tr \<and> (\<exists>e. r1 = Inl e)"
      with res have "0 \<le> length (x # fs) \<and> tr' = tr @ map (HttpPost u) []
        \<and> map (\<lambda>f. json_Marshal_uploadFile lib
                  \<lparr>uf_ContentType = ContentType f, uf_Content = Content f\<rparr>) (take 0 (x # fs))
           = map Inr []
       \<and> (\<forall>fs'. r = Inr fs' \<longrightarrow> 0 = length (x # fs)
             \<and> (\<exists>ids. length ids = length (x # fs)
                   \<and> fs' = d @ map2 (\<lambda>f i. f\<lparr>ID := i\<rparr>) (x # fs) ids))"
        by simp
      then show ?thesis by blast
    next
      assume "\<exists>req. json_Marshal_uploadFile lib
          \<lparr>uf_ContentType = ContentType x, uf_Content = Content x\<rparr> = Inr req
        \<and> t1 = tr @ [HttpPost u req]"
      then obtain req where req: "json_Marshal_uploadFile lib
          \<lparr>uf_ContentType = ContentType x, uf_Content = Content x\<rparr> = Inr req"
        "t1 = tr @ [HttpPost u req]" by blast
      with res have "Suc 0 \<le> length (x # fs) \<and> tr' = tr @ map (HttpPost u) [req]
        \<and> map (\<lambda>f. json_Marshal_uploadFile lib
                  \<lparr>uf_ContentType = ContentType f, uf_Content = Content f\<rparr>) (take (Suc 0) (x # fs))
           = map Inr [req]
       \<and> (\<forall>fs'. r = Inr fs' \<longrightarrow> Suc 0 = length (x # fs)
             \<and> (\<exists>ids. length ids = length (x # fs)
                   \<and> fs' = d @ map2 (\<lambda>f i. f\<lparr>ID := i\<rparr>) (x # fs) ids))"
        by simp
      then show ?thesis by blast
    qed
  next
    case (Inr i)
    with upload_trace [OF u] obtain req where req: "json_Marshal_uploadFile lib
          \<lparr>uf_ContentType = ContentType x, uf_Content = Content x\<rparr> = Inr req"
        "t1 = tr @ [HttpPost u req]" by auto
    from u Inr Cons.prems have "run_uploads lib w u fs (d @ [x\<lparr>ID := i\<rparr>]) t1 = (r, tr')"
      by simp
    from Cons.IH [OF this] obtain n bodies where ih: "n \<le> length fs"
      "tr' = t1 @ map (HttpPost u) bodies"
      "map (\<lambda>f. json_Marshal_uploadFile lib
                  \<lparr>uf_ContentType = ContentType f, uf_Content = Content f\<rparr>) (take n fs)
           = map Inr bodies"
      "\<forall>fs'. r = Inr fs' \<longrightarrow> n = length fs
             \<and> (\<exists>ids. length ids = length fs
                   \<and> fs' = (d @ [x\<lparr>ID := i\<rparr>]) @ map2 (\<lambda>f i. f\<lparr>ID := i\<rparr>) fs ids)"
      by blast
    have ids: "\<forall>fs'. r = Inr fs' \<longrightarrow> Suc n = length (x # fs)
             \<and> (\<exists>ids. length ids = length (x # fs)
                   \<and> fs' = d @ map2 (\<lambda>f i. f\<lparr>ID := i\<rparr>) (x # fs) ids)"
    proof (intro allI impI)
      fix fs' assume "r = Inr fs'"
      with ih(4) obtain ids where "n = length fs" "length ids = length fs"
        "fs' = (d @ [x\<lparr>ID := i\<rparr>]) @ map2 (\<lambda>f i. f\<lparr>ID := i\<rparr>) fs ids" by blast
      then have "Suc n = length (x # fs) \<and> length (i # ids) = length (x # fs)
          \<and> fs' = d @ map2 (\<lambda>f i. f\<lparr>ID := i\<rparr>) (x # fs) (i # ids)" by simp
      then show "Suc n = length (x # fs)
             \<and> (\<exists>ids. length ids = length (x # fs)
                   \<and> fs' = d @ map2 (\<lambda>f i. f\<lparr>ID := i\<rparr>) (x # fs) ids)" by blast
    qed
    from ih(1-3) req have "Suc n \<le> length (x # fs) \<and> tr' = tr @ map (HttpPost u) (req # bodies)
        \<and> map (\<lambda>f. json_Marshal_uploadFile lib
                  \<lparr>uf_ContentType = ContentType f, uf_Content = Content f\<rparr>) (take (Suc n) (x # fs))
           = map Inr (req # bodies)"
      by simp
    with ids show ?thesis by blast
  qed
qed

lemma run_from_uploads_failed:
  "run_uploads lib w (url c) f [] tr = (Inl e, tr')
     \<Longrightarrow> run_from_uploads upd lib w c idx f tr = (Some e, tr')"
  by (simp add: run_from_uploads_def)

text \<open>
  Claim C6, for both copies (\<open>upd\<close> is the copy's \<open>updateIndexFile\<close>). The upload
  loop posts one request for each file, in the order of the files, and stops at the
  first failure: the trace it adds is the list of the requests of the first \<open>n\<close>
  files; on success \<open>n\<close> is the number of files and the result is the list of the
  files with only their IDs changed. The ID of a file is the one its own upload
  returned, after the uploads of the files before it. When the upload of a file fails,
  \<open>run\<close> returns that error at once, whatever \<open>updateIndexFile\<close> would do and
  whatever files follow: the trace ends with the requests of the earlier files and at
  most the failing request, so no later file is uploaded, no update request is built or
  posted, and nothing undoes the earlier uploads. The index update runs only after all
  uploads succeeded, on the files with their IDs set.
\<close>

theorem run_from_uploads_sequential:
  "(run_uploads lib w (url c) f [] tr = (r, tr') \<longrightarrow>
      (\<exists>n bodies. n \<le> length f \<and> tr' = tr @ map (HttpPost (url c)) bodies
         \<and> map (\<lambda>x. json_Marshal_uploadFile lib
                    \<lparr>uf_ContentType = ContentType x, uf_Content = Content x\<rparr>) (take n f)
             = map Inr bodies
         \<and> (\<forall>f'. r = Inr f' \<longrightarrow> n = length f
               \<and> (\<exists>ids. length ids = length f \<and> f' = map2 (\<lambda>x i. x\<lparr>ID := i\<rparr>) f ids))))
   \<and> (run_uploads lib w (url c) pre [] tr = (Inr pre', t)
        \<and> upload lib w (url c) (ContentType x) (Content x) t = (Inr i, t')
      \<longrightarrow> run_uploads lib w (url c) (pre @ [x]) [] tr = (Inr (pre' @ [x\<lparr>ID := i\<rparr>]), t'))
   \<and> (run_uploads lib w (url c) pre [] tr = (Inr pre', t)
        \<and> upload lib w (url c) (ContentType x) (Content x) t = (Inl e, t')
      \<longrightarrow> run_from_uploads upd lib w c idx (pre @ x # post) tr = (Some e, t')
          \<and> (\<exists>bodies. t' = tr @ map (HttpPost (url c)) bodies
                \<and> length bodies \<le> Suc (length pre)))
   \<and> (run_uploads lib w (url c) f [] tr = (Inr f', tr')
      \<longrightarrow> run_from_uploads upd lib w c idx f tr =
            (case upd idx f' tr' of
               (Some err, t'') \<Rightarrow> (Some err, t'')
             | (None, t'') \<Rightarrow> Fprint w (files_String lib f') t''))"
proof (intro conjI impI)
  assume "run_uploads lib w (url c) f [] tr = (r, tr')"
  from run_uploads_posts [OF this]
  show "\<exists>n bodies. n \<le> length f \<and> tr' = tr @ map (HttpPost (url c)) bodies
         \<and> map (\<lambda>x. json_Marshal_uploadFile lib
                    \<lparr>uf_ContentType = ContentType x, uf_Content = Content x\<rparr>) (take n f)
             = map Inr bodies
         \<and> (\<forall>f'. r = Inr f' \<longrightarrow> n = length f
               \<and> (\<exists>ids. length ids = length f \<and> f' = map2 (\<lambda>x i. x\<lparr>ID := i\<rparr>) f ids))"
    by simp
next
  assume "run_uploads lib w (url c) pre [] tr = (Inr pre', t)
    \<and> upload lib w (url c) (ContentType x) (Content x) t = (Inr i, t')"
  then show "run_uploads lib w (url c) (pre @ [x]) [] tr = (Inr (pre' @ [x\<lparr>ID := i\<rparr>]), t')"
    by (simp add: run_uploads_append)
next
  assume a: "run_uploads lib w (url c) pre [] tr = (Inr pre', t)
    \<and> upload lib w (url c) (ContentType x) (Content x) t = (Inl e, t')"
  then have "run_uploads lib w (url c) (pre @ x # post) [] tr = (Inl e, t')"
    by (simp add: run_uploads_append)
  then show "run_from_uploads upd lib w c idx (pre @ x # post) tr = (Some e, t')"
    by (rule run_from_uploads_failed)
  from a run_uploads_posts [of lib w "url c" pre "[]" tr "Inr pre'" t]
  obtain bodies where b: "t = tr @ map (HttpPost (url c)) bodies" "length bodies = length pre"
    by (auto dest: map_eq_imp_length_eq)
  from a upload_trace [of lib w "url c" "ContentType x" "Content x" t "Inl e" t']
  have "t' = t \<or> (\<exists>req. t' = t @ [HttpPost (url c) req])" by auto
  then show "\<exists>bodies. t' = tr @ map (HttpPost (url c)) bodies \<and> length bodies \<le> Suc (length pre)"
  proof
    assume "t' = t"
    with b have "t' = tr @ map (HttpPost (url c)) bodies \<and> length bodies \<le> Suc (length pre)"
      by simp
    then show ?thesis by blast
  next
    assume "\<exists>req. t' = t @ [HttpPost (url c) req]"
    then obtain req where "t' = t @ [HttpPost (url c) req]" by blast
    with b have "t' = tr @ map (HttpPost (url c)) (bodies @ [req])
      \<and> length (bodies @ [req]) \<le> Suc (length pre)"
      by simp
    then show ?thesis by blast
  qed
next
  assume "run_uploads lib w (url c) f [] tr = (Inr f', tr')"
  then show "run_from_uploads upd lib w c idx f tr =
            (case upd idx f' tr' of
               (Some err, t'') \<Rightarrow> (Some err, t'')
             | (None, t'') \<Rightarrow> Fprint w (files_String lib f') t'')"
    by (simp add: run_from_uploads_def)
qed

text \<open>
  Three files, the upload of the second one answered with status 500: the first two
  requests are posted, the third file and the index update are not. The last two lines
  are the whole run of each copy (the outside returns the same content for every file).
\<close>

theorem run_from_uploads_sequential_witness:
  "run_uploads lib_otp0 world1 (url cmd0) [file_a] [] []
     = (Inr [file_a\<lparr>ID := ''X''\<rparr>], [HttpPost ''http://h/content'' ''application/json|{}''])
   \<and> upload lib_otp0 world1 (url cmd0) (ContentType file_b) (Content file_b)
        [HttpPost ''http://h/content'' ''application/json|{}'']
     = (Inl (errUploadStatus 500 ''boom''),
        [HttpPost ''http://h/content'' ''application/json|{}'',
         HttpPost ''http://h/content'' ''application/json|[]''])
   \<and> run_from_uploads (updateIndexFile lib_otp0 world1 cmd0) lib_otp0 world1 cmd0
        \<lparr>BasePath = ''/content'', Mappings = Map.empty\<rparr> [file_a, file_b, file_c] []
     = (Some (errUploadStatus 500 ''boom''),
        [HttpPost ''http://h/content'' ''application/json|{}'',
         HttpPost ''http://h/content'' ''application/json|[]''])
   \<and> run_from_uploads (updateIndexFile lib_otp0 world1 cmd0) lib_otp0 world1 cmd0
        \<lparr>BasePath = ''/content'', Mappings = Map.empty\<rparr> [file_a] []
     = (Some (errUpdateStatus 500 ''boom''),
        [HttpPost ''http://h/content'' ''application/json|{}'',
         HttpPost ''http://h/file'' ''ABC123|add /fileIndex/mappings/a.json X;''])
   \<and> run lib_otp0 world1 (cmd0\<lparr>c_file := ''a.json;b.json;c.json'', noPrompt := True\<rparr>) []
     = (Some (errUploadStatus 500 ''boom''),
        [HttpGet ''http://h/file/file:idx:ABC123'', FileRead ''a.json'', FileRead ''b.json'',
         FileRead ''c.json'', HttpPost ''http://h/content'' ''application/json|{}'',
         HttpPost ''http://h/content'' ''application/json|{}''])
   \<and> run_sig lib_sig0 world1
        (cmd_sig0\<lparr>c_file := ''a.json;b.json;c.json'', noPrompt := True\<rparr>) []
     = (Some (errUploadStatus 500 ''boom''),
        [HttpGet ''http://h/file/file:idx:ABC123'', FileRead ''a.json'', FileRead ''b.json'',
         FileRead ''c.json'', HttpPost ''http://h/content'' ''application/json|{}'',
         HttpPost ''http://h/content'' ''application/json|{}''])"
  using run_from_uploads_sequential [where lib = lib_otp0 and w = world1 and c = cmd0
      and tr = "[]" and pre = "[file_a]" and pre' = "[file_a\<lparr>ID := ''X''\<rparr>]"
      and t = "[HttpPost ''http://h/content'' ''application/json|{}'']"
      and x = file_b and post = "[file_c]" and e = "errUploadStatus 500 ''boom''"
      and t' = "[HttpPost ''http://h/content'' ''application/json|{}'',
         HttpPost ''http://h/content'' ''application/json|[]'']"
      and upd = "updateIndexFile lib_otp0 world1 cmd0"
      and idx = "\<lparr>BasePath = ''/content'', Mappings = Map.empty\<rparr>"
      and f = "[file_a]" and r = "Inr [file_a\<lparr>ID := ''X''\<rparr>]" and f' = "[file_a\<lparr>ID := ''X''\<rparr>]"
      and tr' = "[HttpPost ''http://h/content'' ''application/json|{}'']"]
  by (simp add: eval_defs world1_def file_a_def file_b_def file_c_def updateIndexFile_def
      getUpdatePatch_def getUpdateRequest_def getUniqueSuffix_def jsonPatchBasePath_def
      jsonPatchAddOp_def jsonPatchReplaceOp_def)

end
